theory Spec2Isabelle
  imports Complex_Main "HOL-Library.Sublist" "HOL-Library.Log_Nat"
begin

chapter \<open>The college picker's life-path simulation\<close>

text \<open>
  A shallow embedding of the life-path route of the college picker: the cost model
  (\<^verbatim>\<open>getStickerPrice\<close>, \<^verbatim>\<open>getAidAdjustedPrice\<close>), the year-by-year simulation
  \<^verbatim>\<open>generateLifePath\<close> with its four loops (college, graduate school, residency, career),
  the request handler \<^verbatim>\<open>POST\<close>, and the keyword classifier \<^verbatim>\<open>matchCareerFromText\<close>.
  Definitions keep the names of the source; a local variable of \<^verbatim>\<open>generateLifePath\<close> that
  is computed once becomes a definition of that name over the function's arguments.
\<close>

section \<open>Numbers\<close>

text \<open>
  The simulation computes on JavaScript numbers, the values of IEEE 754 binary64. A
  finite number is modelled as the rational it denotes. Year counts and ages, which the
  source uses as loop bounds, are integers.
\<close>

type_synonym number = rat

text \<open>\<^verbatim>\<open>Math.round\<close> rounds to the nearest integer, a half towards plus infinity.\<close>

definition Math_round :: "number \<Rightarrow> number" where
  "Math_round x = of_int \<lfloor>x + 1 / 2\<rfloor>"

subsection \<open>Binary64 arithmetic\<close>

text \<open>
  The salary curve is computed as the source computes it, in binary64: a decimal literal
  \<open>c\<close> of the source is the double \<open>fl c\<close> nearest to it, and an operation
  yields the double nearest to its exact result, a tie going to the even significand.
  \<open>exponent x\<close> is the integer \<open>e\<close> with \<open>2\<^sup>e \<le> \<bar>x\<bar> < 2\<^sup>e\<^sup>+\<^sup>1\<close>; a double has 53
  significant bits, so the doubles around \<open>x\<close> are the multiples of \<open>2\<^sup>e\<^sup>-\<^sup>5\<^sup>2\<close>, and
  of \<open>2\<^sup>-\<^sup>1\<^sup>0\<^sup>7\<^sup>4\<close> in the subnormal range. Overflow is not modelled: \<open>fl\<close> is the
  rounding of binary64 for exact results of magnitude below \<open>2\<^sup>1\<^sup>0\<^sup>2\<^sup>4 - 2\<^sup>9\<^sup>7\<^sup>0\<close>, where
  JavaScript yields a finite number; the theorem on the salary curve bounds the
  salaries so that every result is in this range.

  The other quantities of the simulation (costs, debt, earnings, savings, net worth) are
  computed exactly: there every constant of the source (\<^verbatim>\<open>0.6\<close>, \<^verbatim>\<open>1.05\<close>, \<^verbatim>\<open>0.15\<close>,
  \<^verbatim>\<open>0.07\<close>, ...) is the decimal fraction it is written as, and the rounding errors of
  the operations are not modelled.
\<close>

definition exponent :: "rat \<Rightarrow> int" where
  "exponent x = (if 1 \<le> \<bar>x\<bar> then bitlen \<lfloor>\<bar>x\<bar>\<rfloor> - 1 else - bitlen (\<lceil>1 / \<bar>x\<bar>\<rceil> - 1))"

definition roundHalfEven :: "rat \<Rightarrow> int" where
  "roundHalfEven r =
     (let n = \<lfloor>r\<rfloor>; d = r - of_int n
      in if d < 1 / 2 then n else if 1 / 2 < d then n + 1 else if even n then n else n + 1)"

definition fl :: "rat \<Rightarrow> number" where
  "fl x = (if x = 0 then 0
           else let q = 2 powi (max (exponent x) (- 1022) - 52)
                in of_int (roundHalfEven (x / q)) * q)"

text \<open>The operators \<^verbatim>\<open>+\<close>, \<^verbatim>\<open>-\<close>, \<^verbatim>\<open>*\<close> and \<^verbatim>\<open>/\<close> on doubles.\<close>

definition fadd :: "number \<Rightarrow> number \<Rightarrow> number" where
  "fadd a b = fl (a + b)"

definition fsub :: "number \<Rightarrow> number \<Rightarrow> number" where
  "fsub a b = fl (a - b)"

definition fmul :: "number \<Rightarrow> number \<Rightarrow> number" where
  "fmul a b = fl (a * b)"

definition fdiv :: "number \<Rightarrow> number \<Rightarrow> number" where
  "fdiv a b = fl (a / b)"

text \<open>The rounding error of a result of magnitude at most \<open>2\<^sup>3\<^sup>4\<close> is at most \<open>eps\<close>.\<close>

definition eps :: rat where
  "eps = 1 / 2 ^ 19"

section \<open>Career data\<close>

record CareerData =
  title :: string
  medianSalary :: number
  salaryLow :: number
  salaryHigh :: number
  growthRate :: number
  educationYears :: int
  trainingYears :: int
  requiresGradSchool :: bool
  gradSchoolYears :: int
  gradCostPerYear :: number
  residencyYears :: int
  residencySalary :: number
  careerNotes :: "string option"   \<comment> \<open>the field \<^verbatim>\<open>notes\<close>\<close>

section \<open>Colleges and student profiles\<close>

text \<open>
  \<^verbatim>\<open>CollegeInput\<close>: a nullable number is a \<open>number option\<close>; the table
  \<^verbatim>\<open>netPriceByIncome: Record<string, number | null>\<close> is an association list, where a missing
  key is JavaScript's \<^verbatim>\<open>undefined\<close> and a key bound to \<open>None\<close> is \<^verbatim>\<open>null\<close>. The sub-objects
  \<^verbatim>\<open>debt\<close> and \<^verbatim>\<open>earnings\<close> are flattened into the fields \<open>medianDebt\<close>, \<open>median6yr\<close>
  and \<open>median10yr\<close>.
\<close>

datatype Ownership = public | private_nonprofit | private_forprofit

record Cost =
  tuitionInState :: "number option"
  tuitionOutOfState :: "number option"
  roomBoardOnCampus :: "number option"
  avgNetPrice :: "number option"
  netPriceByIncome :: "(string \<times> number option) list"

record CollegeInput =
  collegeId :: nat
  collegeName :: string
  city :: string
  state :: string
  ownership :: Ownership
  cost :: Cost
  medianDebt :: "number option"
  median6yr :: "number option"
  median10yr :: "number option"

record StudentProfile =
  incomeBracket :: string
  homeState :: string
  intendedMajor :: string
  careerGoal :: string
  hasScholarships :: bool
  scholarshipAmount :: number
  currentAge :: "int option"

text \<open>The operator \<^verbatim>\<open>a ?? b\<close>: \<open>b\<close> when \<open>a\<close> is \<^verbatim>\<open>null\<close> or \<^verbatim>\<open>undefined\<close>.\<close>

definition nullish :: "'a option \<Rightarrow> 'a \<Rightarrow> 'a" where
  "nullish a b = (case a of Some v \<Rightarrow> v | None \<Rightarrow> b)"

text \<open>
  A JavaScript string is a sequence of 16-bit code units. A \<open>string\<close> here is a sequence
  of code units below 256 (the characters of Latin-1), \<open>of_char\<close> giving the code unit.

  \<^verbatim>\<open>toLowerCase\<close> maps the letters A to Z and the Latin-1 capitals (code units 192 to 222
  but the multiplication sign 215) to the letter 32 code units higher.

  \<^verbatim>\<open>toUpperCase\<close> maps the letters a to z and the Latin-1 small letters (224 to 254 but
  the division sign 247) to the letter 32 code units lower; three Latin-1 letters leave
  the range or grow: the micro sign (181) becomes the capital mu (924), the sharp s (223)
  becomes SS, and y with diaeresis (255) becomes code unit 376. The result is therefore a
  list of code units.
\<close>

definition upperLetters :: string where
  "upperLetters = ''ABCDEFGHIJKLMNOPQRSTUVWXYZ''"

definition lowerLetters :: string where
  "lowerLetters = ''abcdefghijklmnopqrstuvwxyz''"

definition toUpperUnits :: "char \<Rightarrow> nat list" where
  "toUpperUnits c =
     (let n = (of_char c :: nat) in
      if (97 \<le> n \<and> n \<le> 122) \<or> (224 \<le> n \<and> n \<le> 254 \<and> n \<noteq> 247) then [n - 32]
      else if n = 181 then [924]
      else if n = 223 then [83, 83]
      else if n = 255 then [376]
      else [n])"

definition toLowerChar :: "char \<Rightarrow> char" where
  "toLowerChar c =
     (let n = (of_char c :: nat) in
      if (65 \<le> n \<and> n \<le> 90) \<or> (192 \<le> n \<and> n \<le> 222 \<and> n \<noteq> 215) then char_of (n + 32)
      else c)"

definition toUpperCase :: "string \<Rightarrow> nat list" where
  "toUpperCase s = concat (map toUpperUnits s)"

definition toLowerCase :: "string \<Rightarrow> string" where
  "toLowerCase = map toLowerChar"

text \<open>
  The values a property lookup and the arithmetic on it can yield here: \<^verbatim>\<open>null\<close> or
  \<^verbatim>\<open>undefined\<close>, a number, \<^verbatim>\<open>NaN\<close>, and an object or function.
\<close>

datatype jsValue = Null | Num number | NaN | Obj

text \<open>
  The names of the properties every object literal inherits from \<^verbatim>\<open>Object.prototype\<close>. Each
  is bound to a function, and \<^verbatim>\<open>__proto__\<close> to the prototype object itself.
\<close>

definition objectPrototypeKeys :: "string list" where
  "objectPrototypeKeys =
     [''constructor'', ''__defineGetter__'', ''__defineSetter__'', ''hasOwnProperty'',
      ''__lookupGetter__'', ''__lookupSetter__'', ''isPrototypeOf'', ''propertyIsEnumerable'',
      ''toString'', ''valueOf'', ''__proto__'', ''toLocaleString'']"

text \<open>
  \<^verbatim>\<open>table[key]\<close> on an object literal of nullable numbers: the own property when the table
  has the key, else the inherited property of that name, else \<^verbatim>\<open>undefined\<close>.
\<close>

definition indexTable :: "(string \<times> number option) list \<Rightarrow> string \<Rightarrow> jsValue" where
  "indexTable table key =
     (case map_of table key of
        Some (Some v) \<Rightarrow> Num v
      | Some None \<Rightarrow> Null
      | None \<Rightarrow> if key \<in> set objectPrototypeKeys then Obj else Null)"

section \<open>Cost model\<close>

definition getStickerPrice :: "CollegeInput \<Rightarrow> bool \<Rightarrow> bool \<Rightarrow> number" where
  "getStickerPrice college isInState includeRoomBoard =
     (let tuition =
        (if isInState
         then nullish (tuitionInState (cost college))
                (nullish (tuitionOutOfState (cost college)) 15000)
         else nullish (tuitionOutOfState (cost college))
                (nullish (tuitionInState (cost college)) 30000));
          roomBoard =
        (if includeRoomBoard then nullish (roomBoardOnCampus (cost college)) 15000 else 0)
      in tuition + roomBoard)"

text \<open>
  \<^verbatim>\<open>byIncome ?? college.cost.avgNetPrice ?? null\<close>. The declared result is a number or
  \<^verbatim>\<open>null\<close>; for a bracket that names an inherited property it is that property.
\<close>

definition getAidAdjustedPrice :: "CollegeInput \<Rightarrow> string \<Rightarrow> jsValue" where
  "getAidAdjustedPrice college bracket =
     (let byIncome = indexTable (netPriceByIncome (cost college)) bracket
      in case byIncome of
           Null \<Rightarrow> (case avgNetPrice (cost college) of Some v \<Rightarrow> Num v | None \<Rightarrow> Null)
         | v \<Rightarrow> v)"

section \<open>The salary curve of a career year\<close>

text \<open>
  The body of the career loop that computes \<^verbatim>\<open>currentSalary\<close> from \<^verbatim>\<open>careerYear\<close>, with
  the operations in the order in which JavaScript evaluates them. The salaries of the
  career data are doubles; the subtractions on the loop counter are exact.
\<close>

definition currentSalary :: "CareerData \<Rightarrow> int \<Rightarrow> number" where
  "currentSalary careerData careerYear =
     (let yearsExperience = careerYear - 1 in
      if yearsExperience \<le> 0 then
        Math_round (fmul (salaryLow careerData) (fl 0.9))
      else if yearsExperience \<le> 2 then
        (let progress = fdiv (of_int yearsExperience) 2 in
         Math_round (fadd (fmul (salaryLow careerData) (fl 0.9))
           (fmul (fmul (fsub (medianSalary careerData) (fmul (salaryLow careerData) (fl 0.9)))
                    progress) (fl 0.5))))
      else if yearsExperience \<le> 5 then
        (let progress = fdiv (of_int (yearsExperience - 2)) 3;
             startSalary = fadd (fmul (salaryLow careerData) (fl 0.9))
               (fmul (fsub (medianSalary careerData) (fmul (salaryLow careerData) (fl 0.9)))
                  (fl 0.5))
         in Math_round (fadd startSalary
              (fmul (fsub (medianSalary careerData) startSalary) progress)))
      else if yearsExperience \<le> 10 then
        (let progress = fdiv (of_int (yearsExperience - 5)) 5 in
         Math_round (fadd (medianSalary careerData)
           (fmul (fmul (fsub (salaryHigh careerData) (medianSalary careerData)) progress)
              (fl 0.6))))
      else
        (let progress = min (fdiv (of_int (yearsExperience - 10)) 10) 1;
             base = fadd (medianSalary careerData)
               (fmul (fsub (salaryHigh careerData) (medianSalary careerData)) (fl 0.6))
         in Math_round (fadd base
              (fmul (fmul (fsub (salaryHigh careerData) base) progress) (fl 0.5)))))"

section \<open>The life-path simulation\<close>

text \<open>
  A timeline entry (\<^verbatim>\<open>LifePathYear\<close>). The field \<^verbatim>\<open>description\<close>, a text for display built
  from the year number and the career title, is left out: no other value depends on it.
\<close>

record LifePathYear =
  year :: int
  age :: int
  phase :: string
  earnings :: "number option"
  debt :: number
  netWorth :: number

text \<open>The mutable local variables of \<^verbatim>\<open>generateLifePath\<close>, threaded through its four loops.\<close>

record Sim =
  timeline :: "LifePathYear list"
  cumulativeDebt :: number
  cumulativeEarnings :: number
  peakDebt :: number
  breakEvenAge :: "int option"
  accumulatedSavings :: number

text \<open>The constants \<^verbatim>\<open>generateLifePath\<close> computes before the loops.\<close>

definition isInState :: "CollegeInput \<Rightarrow> StudentProfile \<Rightarrow> bool" where
  "isInState college profile = (toUpperCase (homeState profile) = toUpperCase (state college))"

definition stickerPriceWithRB :: "CollegeInput \<Rightarrow> StudentProfile \<Rightarrow> number" where
  "stickerPriceWithRB college profile = getStickerPrice college (isInState college profile) True"

definition stickerPriceTuitionOnly :: "CollegeInput \<Rightarrow> StudentProfile \<Rightarrow> number" where
  "stickerPriceTuitionOnly college profile =
     getStickerPrice college (isInState college profile) False"

definition undergradCostWithRB :: "CollegeInput \<Rightarrow> StudentProfile \<Rightarrow> number" where
  "undergradCostWithRB college profile = stickerPriceWithRB college profile * 4"

definition undergradCostTuitionOnly :: "CollegeInput \<Rightarrow> StudentProfile \<Rightarrow> number" where
  "undergradCostTuitionOnly college profile = stickerPriceTuitionOnly college profile * 4"

definition aidAdjustedPerYear :: "CollegeInput \<Rightarrow> StudentProfile \<Rightarrow> jsValue" where
  "aidAdjustedPerYear college profile = getAidAdjustedPrice college (incomeBracket profile)"

text \<open>
  \<^verbatim>\<open>aidAdjustedPerYear ? aidAdjustedPerYear * 4 : null\<close>: the test is for truthiness. The
  number 0 and \<^verbatim>\<open>NaN\<close> are falsy as \<^verbatim>\<open>null\<close> is, an object or function is truthy, and
  its product with a number is \<^verbatim>\<open>NaN\<close>.
\<close>

definition truthy :: "jsValue \<Rightarrow> bool" where
  "truthy v = (case v of Null \<Rightarrow> False | Num x \<Rightarrow> x \<noteq> 0 | NaN \<Rightarrow> False | Obj \<Rightarrow> True)"

definition timesNumber :: "jsValue \<Rightarrow> number \<Rightarrow> jsValue" where
  "timesNumber v k = (case v of Null \<Rightarrow> Num 0 | Num x \<Rightarrow> Num (x * k) | NaN \<Rightarrow> NaN | Obj \<Rightarrow> NaN)"

definition aidAdjustedUndergrad :: "CollegeInput \<Rightarrow> StudentProfile \<Rightarrow> jsValue" where
  "aidAdjustedUndergrad college profile =
     (if truthy (aidAdjustedPerYear college profile)
      then timesNumber (aidAdjustedPerYear college profile) 4
      else Null)"

definition scholarshipOffset :: "StudentProfile \<Rightarrow> number" where
  "scholarshipOffset profile = (if hasScholarships profile then scholarshipAmount profile else 0)"

definition adjustedUndergradCost :: "CollegeInput \<Rightarrow> StudentProfile \<Rightarrow> number" where
  "adjustedUndergradCost college profile =
     max 0 (undergradCostWithRB college profile - scholarshipOffset profile)"

definition undergradDebt :: "CollegeInput \<Rightarrow> StudentProfile \<Rightarrow> number" where
  "undergradDebt college profile = Math_round (adjustedUndergradCost college profile * 0.6)"

definition gradDebt :: "CareerData \<Rightarrow> number" where
  "gradDebt careerData = gradCostPerYear careerData * of_int (gradSchoolYears careerData)"

definition totalDebt :: "CollegeInput \<Rightarrow> StudentProfile \<Rightarrow> CareerData \<Rightarrow> number" where
  "totalDebt college profile careerData = undergradDebt college profile + gradDebt careerData"

text \<open>\<^verbatim>\<open>profile.currentAge || 18\<close>: an absent age and the age 0 both give 18.\<close>

definition startAge :: "StudentProfile \<Rightarrow> int" where
  "startAge profile =
     (case currentAge profile of None \<Rightarrow> 18 | Some a \<Rightarrow> if a = 0 then 18 else a)"

definition projectionEndAge :: "StudentProfile \<Rightarrow> int" where
  "projectionEndAge profile = startAge profile + 17"

subsection \<open>Undergraduate years\<close>

definition undergradYear :: "CollegeInput \<Rightarrow> StudentProfile \<Rightarrow> int \<Rightarrow> Sim \<Rightarrow> Sim" where
  "undergradYear college profile yr s =
     (let age' = startAge profile + yr - 1;
          cumulativeDebt' = cumulativeDebt s + stickerPriceWithRB college profile * 0.6;
          peakDebt' = max (peakDebt s) cumulativeDebt'
      in s\<lparr>timeline := timeline s @
             [\<lparr>year = yr, age = age', phase = ''College'', earnings = None,
               debt = Math_round cumulativeDebt',
               netWorth = - Math_round cumulativeDebt'\<rparr>],
           cumulativeDebt := cumulativeDebt',
           peakDebt := peakDebt'\<rparr>)"

definition initialSim :: Sim where
  "initialSim = \<lparr>timeline = [], cumulativeDebt = 0, cumulativeEarnings = 0, peakDebt = 0,
     breakEvenAge = None, accumulatedSavings = 0\<rparr>"

definition afterUndergrad :: "CollegeInput \<Rightarrow> StudentProfile \<Rightarrow> Sim" where
  "afterUndergrad college profile =
     (let s = fold (undergradYear college profile) [1..4] initialSim
      in s\<lparr>peakDebt := max (peakDebt s) (cumulativeDebt s)\<rparr>)"

subsection \<open>Graduate school years\<close>

definition gradYear :: "CareerData \<Rightarrow> int \<Rightarrow> Sim \<Rightarrow> Sim" where
  "gradYear careerData yr s =
     (let age' = 22 + yr - 1;
          yearNum = 4 + yr;
          cumulativeDebt' = cumulativeDebt s + gradCostPerYear careerData;
          peakDebt' = max (peakDebt s) cumulativeDebt'
      in s\<lparr>timeline := timeline s @
             [\<lparr>year = yearNum, age = age', phase = ''Grad School'', earnings = None,
               debt = Math_round cumulativeDebt',
               netWorth = Math_round (- cumulativeDebt')\<rparr>],
           cumulativeDebt := cumulativeDebt',
           peakDebt := peakDebt'\<rparr>)"

definition afterGradSchool :: "CollegeInput \<Rightarrow> StudentProfile \<Rightarrow> CareerData \<Rightarrow> Sim" where
  "afterGradSchool college profile careerData =
     (if requiresGradSchool careerData \<and> gradSchoolYears careerData > 0
      then fold (gradYear careerData) [1..gradSchoolYears careerData]
             (afterUndergrad college profile)
      else afterUndergrad college profile)"

subsection \<open>Residency years\<close>

definition residencyYear :: "CareerData \<Rightarrow> int \<Rightarrow> Sim \<Rightarrow> Sim" where
  "residencyYear careerData yr s =
     (let gradSchoolEndAge = 22 + gradSchoolYears careerData;
          age' = gradSchoolEndAge + yr - 1;
          yearNum = 4 + gradSchoolYears careerData + yr;
          cumulativeEarnings' = cumulativeEarnings s + residencySalary careerData;
          cumulativeDebt' = cumulativeDebt s * 1.05 - 5000
      in s\<lparr>timeline := timeline s @
             [\<lparr>year = yearNum, age = age', phase = ''Residency'',
               earnings = Some (residencySalary careerData),
               debt = Math_round (max 0 cumulativeDebt'),
               netWorth = Math_round (cumulativeEarnings' - max 0 cumulativeDebt')\<rparr>],
           cumulativeDebt := cumulativeDebt',
           cumulativeEarnings := cumulativeEarnings'\<rparr>)"

definition afterResidency :: "CollegeInput \<Rightarrow> StudentProfile \<Rightarrow> CareerData \<Rightarrow> Sim" where
  "afterResidency college profile careerData =
     (if residencyYears careerData > 0 \<and> residencySalary careerData > 0
      then fold (residencyYear careerData) [1..residencyYears careerData]
             (afterGradSchool college profile careerData)
      else afterGradSchool college profile careerData)"

subsection \<open>Career years\<close>

definition careerStartAge :: "StudentProfile \<Rightarrow> CareerData \<Rightarrow> int" where
  "careerStartAge profile careerData =
     startAge profile + 4 + gradSchoolYears careerData + residencyYears careerData"

definition yearsToShow :: "StudentProfile \<Rightarrow> CareerData \<Rightarrow> int" where
  "yearsToShow profile careerData =
     projectionEndAge profile - careerStartAge profile careerData + 1"

definition SAVINGS_RATE :: number where
  "SAVINGS_RATE = 0.15"

definition INVESTMENT_RETURN :: number where
  "INVESTMENT_RETURN = 0.07"

text \<open>The annual payment and the three running values of one career year.\<close>

definition annualPayment :: "number \<Rightarrow> number \<Rightarrow> number" where
  "annualPayment totalDebt' cumulativeDebt' =
     (if totalDebt' > 0 then min (totalDebt' / 10 * 1.5) cumulativeDebt' else 0)"

definition careerYear :: "CollegeInput \<Rightarrow> StudentProfile \<Rightarrow> CareerData \<Rightarrow> int \<Rightarrow> int \<Rightarrow> Sim \<Rightarrow> Sim"
  where
  "careerYear college profile careerData currentYearNum careerYr s =
     (let age' = careerStartAge profile careerData + careerYr - 1;
          yearNum = currentYearNum + careerYr;
          salary = currentSalary careerData careerYr;
          payment = annualPayment (totalDebt college profile careerData) (cumulativeDebt s);
          cumulativeDebt' = max 0 (cumulativeDebt s * 1.05 - payment);
          annualSavings = max 0 (salary * SAVINGS_RATE - payment);
          accumulatedSavings' = accumulatedSavings s * (1 + INVESTMENT_RETURN) + annualSavings;
          netWorth' = accumulatedSavings' - cumulativeDebt';
          breakEvenAge' =
            (if breakEvenAge s = None \<and> netWorth' > 0 then Some age' else breakEvenAge s)
      in s\<lparr>timeline := timeline s @
             [\<lparr>year = yearNum, age = age', phase = ''Career'', earnings = Some salary,
               debt = Math_round (max 0 cumulativeDebt'),
               netWorth = Math_round netWorth'\<rparr>],
           cumulativeDebt := cumulativeDebt',
           breakEvenAge := breakEvenAge',
           accumulatedSavings := accumulatedSavings'\<rparr>)"

text \<open>
  The loop \<^verbatim>\<open>for (careerYear = 1; careerYear <= yearsToShow; careerYear++)\<close> with its
  \<^verbatim>\<open>if (age > projectionEndAge) break\<close>.
\<close>

function careerLoop ::
  "CollegeInput \<Rightarrow> StudentProfile \<Rightarrow> CareerData \<Rightarrow> int \<Rightarrow> int \<Rightarrow> Sim \<Rightarrow> Sim" where
  "careerLoop college profile careerData currentYearNum careerYr s =
     (if careerYr \<le> yearsToShow profile careerData then
        (if careerStartAge profile careerData + careerYr - 1 > projectionEndAge profile then s
         else careerLoop college profile careerData currentYearNum (careerYr + 1)
                (careerYear college profile careerData currentYearNum careerYr s))
      else s)"
  by pat_completeness auto
termination
  by (relation "measure (\<lambda>(college, profile, careerData, currentYearNum, careerYr, s).
        nat (yearsToShow profile careerData + 1 - careerYr))") auto

definition afterCareer :: "CollegeInput \<Rightarrow> StudentProfile \<Rightarrow> CareerData \<Rightarrow> Sim" where
  "afterCareer college profile careerData =
     careerLoop college profile careerData
       (int (length (timeline (afterResidency college profile careerData)))) 1
       (afterResidency college profile careerData)"

text \<open>
  The trace of the career loop: for every year the loop runs, the age and the net worth
  \<^verbatim>\<open>accumulatedSavings - cumulativeDebt\<close> of that year, as the loop computes it before
  rounding it into the timeline entry. It follows the loop step by step and is used to
  state what the loop records as the break-even age.
\<close>

definition unroundedNetWorth :: "Sim \<Rightarrow> number" where
  "unroundedNetWorth s = accumulatedSavings s - cumulativeDebt s"

function careerNetWorths ::
  "CollegeInput \<Rightarrow> StudentProfile \<Rightarrow> CareerData \<Rightarrow> int \<Rightarrow> int \<Rightarrow> Sim \<Rightarrow> (int \<times> number) list"
  where
  "careerNetWorths college profile careerData currentYearNum careerYr s =
     (if careerYr \<le> yearsToShow profile careerData then
        (if careerStartAge profile careerData + careerYr - 1 > projectionEndAge profile then []
         else
           (careerStartAge profile careerData + careerYr - 1,
            unroundedNetWorth (careerYear college profile careerData currentYearNum careerYr s))
           # careerNetWorths college profile careerData currentYearNum (careerYr + 1)
               (careerYear college profile careerData currentYearNum careerYr s))
      else [])"
  by pat_completeness auto
termination
  by (relation "measure (\<lambda>(college, profile, careerData, currentYearNum, careerYr, s).
        nat (yearsToShow profile careerData + 1 - careerYr))") auto

subsection \<open>The result\<close>

text \<open>
  Of the returned \<^verbatim>\<open>LifePath\<close> the timeline and the summary are modelled. The fields that
  copy the inputs (\<^verbatim>\<open>college\<close>, \<^verbatim>\<open>major\<close>, \<^verbatim>\<open>majorEarnings\<close>, \<^verbatim>\<open>occupation\<close>) and the
  summary's \<^verbatim>\<open>warning\<close> text are left out.
\<close>

record CostBreakdown =
  undergradWithRoomBoard :: number
  undergradTuitionOnly :: number
  gradSchoolCost :: number
  breakdownAidAdjustedUndergrad :: "number option"

record Summary =
  totalCost :: number
  costBreakdown :: CostBreakdown
  summaryPeakDebt :: number
  summaryBreakEvenAge :: "int option"
  netWorthAt35 :: number

record LifePath =
  pathTimeline :: "LifePathYear list"
  summary :: Summary

text \<open>\<^verbatim>\<open>lastYear?.netWorth || -totalDebt\<close>: a net worth of 0 is falsy too.\<close>

definition netWorthAtEnd :: "LifePathYear list \<Rightarrow> number \<Rightarrow> number" where
  "netWorthAtEnd entries totalDebt' =
     (case entries of [] \<Rightarrow> - totalDebt'
      | _ \<Rightarrow> if netWorth (last entries) = 0 then - totalDebt' else netWorth (last entries))"

definition generateLifePath :: "CollegeInput \<Rightarrow> StudentProfile \<Rightarrow> CareerData \<Rightarrow> LifePath" where
  "generateLifePath college profile careerData =
     (let s = afterCareer college profile careerData in
      \<lparr>pathTimeline = timeline s,
       summary =
         \<lparr>totalCost = Math_round (adjustedUndergradCost college profile
              + gradCostPerYear careerData * of_int (gradSchoolYears careerData)),
          costBreakdown =
            \<lparr>undergradWithRoomBoard = Math_round (undergradCostWithRB college profile),
             undergradTuitionOnly = Math_round (undergradCostTuitionOnly college profile),
             gradSchoolCost =
               Math_round (gradCostPerYear careerData * of_int (gradSchoolYears careerData)),
             breakdownAidAdjustedUndergrad =
               (if truthy (aidAdjustedUndergrad college profile)
                then (case aidAdjustedUndergrad college profile of
                        Num v \<Rightarrow> Some (Math_round v)
                      | _ \<Rightarrow> None)
                else None)\<rparr>,
          summaryPeakDebt = Math_round (peakDebt s),
          summaryBreakEvenAge = breakEvenAge s,
          netWorthAt35 =
            Math_round (netWorthAtEnd (timeline s) (totalDebt college profile careerData))\<rparr>\<rparr>)"

text \<open>
  The career part of a run: the trace of the career loop started as \<^verbatim>\<open>generateLifePath\<close>
  starts it, and the timeline entries the loop appends.
\<close>

definition careerTrace :: "CollegeInput \<Rightarrow> StudentProfile \<Rightarrow> CareerData \<Rightarrow> (int \<times> number) list"
  where
  "careerTrace college profile careerData =
     careerNetWorths college profile careerData
       (int (length (timeline (afterResidency college profile careerData)))) 1
       (afterResidency college profile careerData)"

definition careerSnapshots :: "CollegeInput \<Rightarrow> StudentProfile \<Rightarrow> CareerData \<Rightarrow> LifePathYear list"
  where
  "careerSnapshots college profile careerData =
     drop (length (timeline (afterResidency college profile careerData)))
       (pathTimeline (generateLifePath college profile careerData))"

text \<open>
  The curve as the specification words it, for comparison with \<open>currentSalary\<close>:
  linear interpolation between named anchor points, by years of experience \<open>e\<close>.
\<close>

definition lerp :: "number \<Rightarrow> number \<Rightarrow> number \<Rightarrow> number" where
  "lerp a b t = a + (b - a) * t"

definition salaryCurve_spec :: "number \<Rightarrow> number \<Rightarrow> number \<Rightarrow> number \<Rightarrow> number" where
  "salaryCurve_spec low median high e =
     (let entry = 0.9 * low;
          midpoint = (entry + median) / 2;
          senior = median + 0.6 * (high - median);
          late = senior + 0.5 * (high - senior)
      in if e \<le> 0 then entry
         else if e \<le> 2 then lerp entry midpoint (e / 2)
         else if e \<le> 5 then lerp midpoint median ((e - 2) / 3)
         else if e \<le> 10 then lerp median senior ((e - 5) / 5)
         else lerp senior late (min ((e - 10) / 10) 1))"

section \<open>The career classifier\<close>

text \<open>
  \<^verbatim>\<open>matchCareerFromText\<close> lowercases and trims the text, returns it when it names an entry of
  \<^verbatim>\<open>CAREER_PATH_CONFIG\<close>, and otherwise returns the category of the first regular expression
  of its list that the text matches.

  Every expression of the list has the form \<^verbatim>\<open>/\b(w1|w2|...)\b/i\<close> with literal alternatives,
  so a pattern is the list of its alternatives (the one alternative \<^verbatim>\<open>non-?profit\<close> is
  written out as its two readings). Such an expression matches when some alternative
  occurs in the text between two word boundaries. The text is already in lower case, so
  the flag \<^verbatim>\<open>i\<close> changes nothing; a word character is an ASCII letter, a digit or the
  underscore.
\<close>

definition isWordChar :: "char \<Rightarrow> bool" where
  "isWordChar c = (c \<in> set (lowerLetters @ upperLetters @ ''0123456789_''))"

text \<open>\<^verbatim>\<open>\b\<close> between a previous character (if any) and the rest of the text.\<close>

definition wordBoundary :: "char option \<Rightarrow> string \<Rightarrow> bool" where
  "wordBoundary prev rest =
     ((case prev of None \<Rightarrow> False | Some c \<Rightarrow> isWordChar c)
      \<noteq> (case rest of [] \<Rightarrow> False | c # _ \<Rightarrow> isWordChar c))"

definition matchesHere :: "string \<Rightarrow> char option \<Rightarrow> string \<Rightarrow> bool" where
  "matchesHere alt prev rest =
     (prefix alt rest \<and> wordBoundary prev rest
      \<and> wordBoundary (if alt = [] then prev else Some (last alt)) (drop (length alt) rest))"

fun searchFrom :: "string list \<Rightarrow> char option \<Rightarrow> string \<Rightarrow> bool" where
  "searchFrom alts prev [] = list_ex (\<lambda>alt. matchesHere alt prev []) alts"
| "searchFrom alts prev (c # cs) =
     (list_ex (\<lambda>alt. matchesHere alt prev (c # cs)) alts \<or> searchFrom alts (Some c) cs)"

definition regexTest :: "string list \<Rightarrow> string \<Rightarrow> bool" where
  "regexTest alts text = searchFrom alts None text"

text \<open>
  \<^verbatim>\<open>trim\<close> removes the white space and the line terminators at both ends. Below 256
  these are the code units 9 to 13, the space and the no-break space (160).
\<close>

definition isSpace :: "char \<Rightarrow> bool" where
  "isSpace c =
     (c \<in> set [CHR '' '', CHR 0x09, CHR 0x0A, CHR 0x0B, CHR 0x0C, CHR 0x0D, CHR 0xA0])"

definition trim :: "string \<Rightarrow> string" where
  "trim s = rev (dropWhile isSpace (rev (dropWhile isSpace s)))"

text \<open>
  The keys of \<^verbatim>\<open>CAREER_PATH_CONFIG\<close>, in the order of the source. Every entry is an object,
  hence truthy. The lookup \<^verbatim>\<open>CAREER_PATH_CONFIG[lower]\<close> also finds the properties every
  object inherits, all truthy (of their names only \<^verbatim>\<open>constructor\<close> and \<^verbatim>\<open>__proto__\<close> are
  in lower case, as \<open>lower\<close> is).
\<close>

definition CAREER_PATH_CONFIG_keys :: "string list" where
  "CAREER_PATH_CONFIG_keys =
    [''tech_engineer'', ''tech_pm'', ''finance'', ''consulting'', ''medicine'',
     ''surgery'', ''neurosurgery'', ''healthcare'', ''nursing'', ''law'', ''academia'',
     ''teaching'', ''creative'', ''entrepreneur'', ''government'', ''not_sure'',
     ''trades'', ''first_responder'', ''military'', ''real_estate'', ''sales'',
     ''dentistry'', ''pharmacy'', ''veterinary'', ''optometry'', ''therapy'',
     ''healthcare_tech'', ''social_work'', ''media'', ''data_analyst'', ''accounting'',
     ''aviation'', ''logistics'', ''corporate'', ''marketing'', ''architecture'',
     ''hospitality'', ''fitness'', ''beauty'', ''agriculture'', ''nonprofit'']"

definition configLookupTruthy :: "string \<Rightarrow> bool" where
  "configLookupTruthy lower = (lower \<in> set (CAREER_PATH_CONFIG_keys @ objectPrototypeKeys))"

definition patterns :: "(string list \<times> string) list" where
  "patterns = [
    ([''nursing'', ''nurse'', ''rn'', ''bsn'', ''lpn'', ''registered nurse'',
      ''nurse practitioner'', ''np''], ''nursing''),
    ([''software'', ''developer'', ''programmer'', ''engineer'', ''coding'', ''web dev'',
      ''data scientist'', ''devops'', ''sysadmin'', ''network admin'', ''database'',
      ''dba'', ''qa'', ''tester'', ''cybersecurity'', ''cloud'', ''backend'', ''frontend'',
      ''full stack'', ''machine learning'', ''ai engineer''], ''tech_engineer''),
    ([''product manager'', ''pm'', ''product owner'', ''ux'', ''ui designer'',
      ''scrum master'', ''agile''], ''tech_pm''),
    ([''data analyst'', ''business analyst'', ''analytics'', ''statistician'', ''actuary'',
      ''quantitative''], ''data_analyst''),
    ([''finance'', ''banker'', ''investment'', ''trading'', ''wall street'',
      ''hedge fund'', ''private equity'', ''venture capital'', ''financial advisor'',
      ''wealth management'', ''cfo''], ''finance''),
    ([''accountant'', ''accounting'', ''cpa'', ''auditor'', ''tax'', ''bookkeeper''], ''accounting''),
    ([''consultant'', ''consulting'', ''mckinsey'', ''bain'', ''bcg'', ''deloitte'',
      ''pwc'', ''kpmg'', ''ey'', ''accenture''], ''consulting''),
    ([''neurosurgeon'', ''neurosurgery'', ''brain surgeon'', ''brain surgery''], ''neurosurgery''),
    ([''surgeon'', ''surgery'', ''surgical'', ''orthopedic surgeon'', ''cardiac surgeon'',
      ''trauma surgeon'', ''plastic surgeon'', ''general surgery''], ''surgery''),
    ([''doctor'', ''physician'', ''md'', ''do'', ''medical doctor'', ''pediatrician'',
      ''cardiologist'', ''dermatologist'', ''psychiatrist'', ''oncologist'',
      ''anesthesiologist'', ''radiologist''], ''medicine''),
    ([''dentist'', ''dental'', ''orthodontist'', ''oral surgeon'', ''periodontist''], ''dentistry''),
    ([''pharmacist'', ''pharmacy'', ''pharmd''], ''pharmacy''),
    ([''veterinarian'', ''vet'', ''veterinary'', ''animal doctor''], ''veterinary''),
    ([''optometrist'', ''optometry'', ''eye doctor''], ''optometry''),
    ([''physical therapist'', ''pt'', ''dpt'', ''occupational therapist'', ''ot'',
      ''speech therapist'', ''slp'', ''rehab''], ''therapy''),
    ([''healthcare'', ''health care'', ''medical assistant'', ''technician'',
      ''radiology'', ''sonographer'', ''phlebotomist'', ''medical coder'',
      ''health admin'', ''hospital''], ''healthcare''),
    ([''dental hygienist'', ''dental assistant'', ''vet tech'', ''veterinary tech'',
      ''pharmacy tech'', ''lab tech''], ''healthcare_tech''),
    ([''lawyer'', ''attorney'', ''legal'', ''paralegal'', ''judge'', ''prosecutor'',
      ''public defender'', ''corporate counsel''], ''law''),
    ([''professor'', ''academia'', ''phd'', ''research'', ''scientist'', ''researcher'',
      ''postdoc''], ''academia''),
    ([''teacher'', ''teaching'', ''educator'', ''principal'', ''school'', ''tutor'',
      ''special education''], ''teaching''),
    ([''social worker'', ''counselor'', ''therapist'', ''mental health'', ''case manager'',
      ''family services'', ''child welfare'', ''lcsw'', ''lmft''], ''social_work''),
    ([''artist'', ''musician'', ''writer'', ''filmmaker'', ''photographer'', ''actor'',
      ''actress'', ''animator'', ''video editor'', ''graphic design'', ''illustrator'',
      ''creative director''], ''creative''),
    ([''content creator'', ''influencer'', ''streamer'', ''youtuber'', ''podcaster'',
      ''social media'', ''journalist'', ''reporter'', ''news'', ''broadcasting''], ''media''),
    ([''entrepreneur'', ''startup'', ''founder'', ''business owner'', ''self-employed'',
      ''freelance'', ''small business''], ''entrepreneur''),
    ([''government'', ''federal'', ''public sector'', ''civil servant'', ''policy'',
      ''diplomat'', ''city planner'', ''urban planner''], ''government''),
    ([''electrician'', ''plumber'', ''hvac'', ''carpenter'', ''mechanic'', ''welder'',
      ''construction'', ''contractor'', ''trades'', ''lineman'', ''ironworker'',
      ''machinist'', ''cnc'', ''heavy equipment'', ''crane operator'', ''roofer'',
      ''painter'', ''mason''], ''trades''),
    ([''auto mechanic'', ''automotive'', ''car'', ''diesel'', ''collision repair'',
      ''body shop''], ''trades''),
    ([''police'', ''cop'', ''officer'', ''firefighter'', ''emt'', ''paramedic'',
      ''first responder'', ''detective'', ''sheriff'', ''state trooper'', ''corrections'',
      ''prison''], ''first_responder''),
    ([''military'', ''army'', ''navy'', ''air force'', ''marines'', ''coast guard'',
      ''national guard'', ''veteran'', ''enlisted'', ''officer''], ''military''),
    ([''pilot'', ''aviation'', ''airline'', ''flight attendant'', ''air traffic'',
      ''aerospace''], ''aviation''),
    ([''truck driver'', ''trucker'', ''cdl'', ''logistics'', ''supply chain'',
      ''warehouse'', ''shipping'', ''delivery'', ''ups'', ''fedex'', ''amazon''], ''logistics''),
    ([''real estate'', ''realtor'', ''property'', ''broker'', ''mortgage'', ''appraiser''], ''real_estate''),
    ([''sales'', ''account executive'', ''ae'', ''business development'', ''bdr'', ''sdr'',
      ''retail'', ''store manager''], ''sales''),
    ([''human resources'', ''hr'', ''recruiter'', ''talent'', ''operations'',
      ''office manager'', ''administrative'', ''executive assistant'', ''project manager'',
      ''pmp''], ''corporate''),
    ([''marketing'', ''brand'', ''advertising'', ''seo'', ''growth'',
      ''digital marketing'', ''pr'', ''public relations'', ''communications''], ''marketing''),
    ([''architect'', ''architecture'', ''interior design'', ''landscape architect''], ''architecture''),
    ([''chef'', ''cook'', ''culinary'', ''restaurant'', ''hotel'', ''hospitality'',
      ''event planner'', ''catering'', ''bartender'', ''sommelier''], ''hospitality''),
    ([''personal trainer'', ''fitness'', ''gym'', ''coach'', ''athletic trainer'',
      ''sports'', ''yoga'', ''pilates'', ''nutritionist'', ''dietitian''], ''fitness''),
    ([''cosmetologist'', ''hair stylist'', ''barber'', ''esthetician'', ''nail tech'',
      ''makeup artist'', ''beauty'', ''salon'', ''spa''], ''beauty''),
    ([''farmer'', ''farming'', ''agriculture'', ''rancher'', ''agricultural'',
      ''agribusiness''], ''agriculture''),
    ([''non-profit'', ''nonprofit'', ''ngo'', ''charity'', ''foundation'', ''advocacy'',
      ''community organizer''], ''nonprofit'')]"

definition matchCareerFromText :: "string \<Rightarrow> string" where
  "matchCareerFromText text =
     (let lower = trim (toLowerCase text) in
      if configLookupTruthy lower then lower
      else (case find (\<lambda>(pattern, category). regexTest pattern lower) patterns of
              Some (pattern, category) \<Rightarrow> category
            | None \<Rightarrow> ''not_sure''))"

section \<open>The request handler\<close>

text \<open>
  \<^verbatim>\<open>POST\<close> of the life-path route. The database query that loads the full college records
  and the career lookup \<^verbatim>\<open>getCareerDataFromAI\<close> (which absorbs its own failures) are
  parameters; the query may fail, which is the result \<open>None\<close>. The body is a JSON object.
  Its \<^verbatim>\<open>colleges\<close> and its \<^verbatim>\<open>profile\<close> may be missing, and so may the profile's
  \<^verbatim>\<open>homeState\<close>; the fields a profile has are of the types the interface declares.

  The response is the 400 error, the 500 error of the \<^verbatim>\<open>catch\<close> branch, or the list of life
  paths; the echo of the career data in the success response is left out.
\<close>

record ProfileJson =
  typed :: StudentProfile
  hasHomeState :: bool

record LifePathRequest =
  colleges :: "CollegeInput list option"
  profile :: "ProfileJson option"





section \<open>Example inputs\<close>

definition stateCollege :: CollegeInput where
  "stateCollege =
     \<lparr>collegeId = 1, collegeName = ''State University'', city = ''Davis'', state = ''CA'',
      ownership = public,
      cost = \<lparr>tuitionInState = Some 20000, tuitionOutOfState = Some 35000,
        roomBoardOnCampus = Some 10000, avgNetPrice = Some 15000,
        netPriceByIncome =
          [(''0-30000'', Some 0), (''30001-48000'', Some 9000), (''48001-75000'', Some 14000),
           (''75001-110000'', Some 21000), (''110001-plus'', None)]\<rparr>,
      medianDebt = Some 19000, median6yr = Some 45000, median10yr = Some 60000\<rparr>"

definition cityCollege :: CollegeInput where
  "cityCollege =
     \<lparr>collegeId = 2, collegeName = ''City College'', city = ''Reno'', state = ''NV'',
      ownership = public,
      cost = \<lparr>tuitionInState = Some 5000, tuitionOutOfState = Some 12000,
        roomBoardOnCampus = Some 3000, avgNetPrice = Some 6000,
        netPriceByIncome =
          [(''0-30000'', Some 2000), (''30001-48000'', Some 4000), (''48001-75000'', Some 6000),
           (''75001-110000'', Some 8000), (''110001-plus'', Some 8000)]\<rparr>,
      medianDebt = None, median6yr = None, median10yr = None\<rparr>"

definition student :: "string \<Rightarrow> string \<Rightarrow> int \<Rightarrow> StudentProfile" where
  "student bracket home age' =
     \<lparr>incomeBracket = bracket, homeState = home, intendedMajor = ''biology'',
      careerGoal = ''brain surgeon'', hasScholarships = False, scholarshipAmount = 0,
      currentAge = Some age'\<rparr>"

definition surgeon :: CareerData where
  "surgeon =
     \<lparr>title = ''Neurosurgeon'', medianSalary = 650000, salaryLow = 400000,
      salaryHigh = 900000, growthRate = 3, educationYears = 8, trainingYears = 7,
      requiresGradSchool = True, gradSchoolYears = 4, gradCostPerYear = 60000,
      residencyYears = 7, residencySalary = 70000, careerNotes = None\<rparr>"

definition trainee :: CareerData where
  "trainee =
     \<lparr>title = ''Clinical Laboratory Scientist'', medianSalary = 60000, salaryLow = 45000,
      salaryHigh = 80000, growthRate = 5, educationYears = 4, trainingYears = 5,
      requiresGradSchool = False, gradSchoolYears = 0, gradCostPerYear = 0,
      residencyYears = 5, residencySalary = 30000, careerNotes = None\<rparr>"

text \<open>
  A well-paid career without graduate school, whose first salary makes the first career
  year's net worth a fraction of a dollar.
\<close>

definition wellPaid :: CareerData where
  "wellPaid =
     \<lparr>title = ''Software Engineer'', medianSalary = 180000, salaryLow = 149334,
      salaryHigh = 250000, growthRate = 17, educationYears = 4, trainingYears = 0,
      requiresGradSchool = False, gradSchoolYears = 0, gradCostPerYear = 0,
      residencyYears = 0, residencySalary = 0, careerNotes = None\<rparr>"

text \<open>
  A career whose median salary is the double nearest to 297593.1: in its third career
  year the curve passes just below a half dollar.
\<close>

definition borderline :: CareerData where
  "borderline =
     \<lparr>title = ''Anesthesiologist'', medianSalary = 2556305264030515 / 8589934592,
      salaryLow = 254571, salaryHigh = 400000, growthRate = 3, educationYears = 8,
      trainingYears = 4, requiresGradSchool = True, gradSchoolYears = 4,
      gradCostPerYear = 60000, residencyYears = 4, residencySalary = 65000,
      careerNotes = None\<rparr>"

text \<open>
  A student from California at the state university, aiming at neurosurgery: four years
  of medical school at 60000 a year and seven years of residency at 70000 a year.
\<close>

definition surgeonPath :: "int \<Rightarrow> LifePath" where
  "surgeonPath age' = generateLifePath stateCollege (student ''48001-75000'' ''ca'' age') surgeon"

text \<open>
  A student from Nevada at the city college (8000 a year with room and board), whose
  career has five paid training years and no graduate school.
\<close>

definition traineeProfile :: StudentProfile where
  "traineeProfile = student ''0-30000'' ''NV'' 18"





section \<open>Theorems\<close>

subsection \<open>Rounding to the nearest double\<close>

lemma roundHalfEven_err: "\<bar>of_int (roundHalfEven r) - r\<bar> \<le> 1 / 2"
proof -
  have "of_int \<lfloor>r\<rfloor> \<le> r" "r < of_int \<lfloor>r\<rfloor> + 1" by linarith+
  then show ?thesis
    by (auto simp: roundHalfEven_def Let_def)
qed

lemma roundHalfEven_ge: "of_int n \<le> r \<Longrightarrow> n \<le> roundHalfEven r"
proof -
  assume "of_int n \<le> r"
  then have "n \<le> \<lfloor>r\<rfloor>" by (simp add: le_floor_iff)
  then show ?thesis by (auto simp: roundHalfEven_def Let_def)
qed

lemma bitlen_pos: "0 < n \<Longrightarrow> 0 < bitlen n"
proof (rule ccontr)
  assume n: "0 < n" and "\<not> 0 < bitlen n"
  then have "nat (bitlen n) = 0" by simp
  with bitlen_bounds [OF n] show False by auto
qed

lemma exponent_lower: "x \<noteq> 0 \<Longrightarrow> 2 powi (exponent x) \<le> \<bar>x\<bar>"
proof (cases "1 \<le> \<bar>x\<bar>")
  case True
  define n where "n = \<lfloor>\<bar>x\<bar>\<rfloor>"
  have n: "0 < n" using True by (simp add: n_def)
  from bitlen_bounds [OF n] have b: "2 ^ nat (bitlen n - 1) \<le> n" by simp
  have "0 < bitlen n" using n by (rule bitlen_pos)
  then have "(2::rat) powi (bitlen n - 1) = 2 ^ nat (bitlen n - 1)"
    by (simp add: power_int_def)
  also have "\<dots> = of_int (2 ^ nat (bitlen n - 1))" by simp
  also have "\<dots> \<le> of_int n" using b by (simp only: of_int_le_iff)
  also have "\<dots> \<le> \<bar>x\<bar>" by (simp add: n_def)
  finally show ?thesis using True by (simp add: exponent_def n_def)
next
  case False
  assume x: "x \<noteq> 0"
  define m where "m = \<lceil>1 / \<bar>x\<bar>\<rceil>"
  define b where "b = bitlen (m - 1)"
  have y: "1 < 1 / \<bar>x\<bar>" using False x by simp
  then have m: "0 < m - 1" by (simp add: m_def less_ceiling_iff)
  from bitlen_bounds [OF m] have "m - 1 < 2 ^ nat b" by (simp add: b_def)
  then have "m \<le> 2 ^ nat b" by simp
  then have "rat_of_int m \<le> of_int (2 ^ nat b)" by (simp only: of_int_le_iff)
  then have "rat_of_int m \<le> 2 ^ nat b" by simp
  moreover have "1 / \<bar>x\<bar> \<le> of_int m" by (simp add: m_def)
  ultimately have "1 / \<bar>x\<bar> \<le> 2 ^ nat b" by linarith
  then have "1 / 2 ^ nat b \<le> \<bar>x\<bar>" using x
    by (simp add: field_simps)
  moreover have "0 \<le> b" by (simp add: b_def bitlen_def)
  then have "(2::rat) powi (- b) = 1 / 2 ^ nat b"
    by (simp add: power_int_minus_divide power_int_def power_one_over)
  ultimately show ?thesis using False by (simp add: exponent_def m_def b_def)
qed

lemma exponent_le:
  assumes "x \<noteq> 0" "\<bar>x\<bar> \<le> 2 powi k"
  shows "exponent x \<le> k"
proof (rule ccontr)
  assume "\<not> exponent x \<le> k"
  then have "k + 1 \<le> exponent x" by simp
  then have "(2::rat) powi (k + 1) \<le> 2 powi (exponent x)"
    by (rule power_int_increasing) simp
  moreover have "(2::rat) powi k < 2 powi (k + 1)"
    by (simp add: power_int_add_1)
  ultimately show False using exponent_lower [OF assms(1)] assms(2) by linarith
qed

lemma fl_err:
  assumes "\<bar>x\<bar> \<le> 2 powi k" "- 1022 \<le> k"
  shows "\<bar>fl x - x\<bar> \<le> 2 powi (k - 53)"
proof (cases "x = 0")
  case True
  then show ?thesis by (simp add: fl_def)
next
  case False
  define e where "e = max (exponent x) (- 1022)"
  define q :: rat where "q = 2 powi (e - 52)"
  have e: "e \<le> k" using exponent_le [OF False assms(1)] assms(2) by (simp add: e_def)
  have q: "0 < q" by (simp add: q_def)
  have "fl x - x = (of_int (roundHalfEven (x / q)) - x / q) * q"
    using False q by (simp add: fl_def e_def q_def Let_def field_simps)
  then have "\<bar>fl x - x\<bar> = \<bar>of_int (roundHalfEven (x / q)) - x / q\<bar> * q"
    using q by (simp add: abs_mult)
  also have "\<dots> \<le> 1 / 2 * q"
    using roundHalfEven_err [of "x / q"] q by (intro mult_right_mono) simp_all
  also have "\<dots> = 2 powi (e - 53)"
    by (simp add: q_def power_int_diff)
  also have "\<dots> \<le> 2 powi (k - 53)"
    using e by (intro power_int_increasing) simp_all
  finally show ?thesis .
qed

lemma fl_ge_one:
  assumes "1 \<le> x"
  shows "1 \<le> fl x"
proof -
  have x: "x \<noteq> 0" "\<bar>x\<bar> = x" using assms by simp_all
  define e where "e = exponent x"
  define q :: rat where "q = 2 powi (e - 52)"
  have "0 < \<lfloor>x\<rfloor>" using assms by simp
  then have "0 < bitlen \<lfloor>x\<rfloor>" by (rule bitlen_pos)
  then have e: "0 \<le> e" using assms by (simp add: e_def exponent_def)
  have q: "0 < q" by (simp add: q_def)
  have lo: "2 powi e \<le> x" using exponent_lower [OF x(1)] x(2) by (simp add: e_def)
  have "(2::rat) powi e = 2 powi 52 * q" by (simp add: q_def power_int_diff)
  then have pq: "(2::rat) powi e = of_int (2 ^ 52) * q" by simp
  then have "of_int (2 ^ 52) \<le> x / q" using lo q by (simp add: field_simps)
  then have "2 ^ 52 \<le> roundHalfEven (x / q)" by (rule roundHalfEven_ge)
  then have "rat_of_int (2 ^ 52) \<le> of_int (roundHalfEven (x / q))"
    by (simp only: of_int_le_iff)
  then have "of_int (2 ^ 52) * q \<le> of_int (roundHalfEven (x / q)) * q"
    using q by (intro mult_right_mono) simp_all
  moreover have "1 \<le> (2::rat) powi e"
    using power_int_increasing [of 0 e "2::rat"] e by simp
  moreover have "fl x = of_int (roundHalfEven (x / q)) * q"
    using x e by (simp add: fl_def e_def q_def Let_def max_def)
  ultimately show ?thesis using pq by linarith
qed

subsection \<open>The salary curve\<close>

lemma fl_half: "fl (1 / 2) = 1 / 2"
  by code_simp

lemma fl34: "\<bar>x\<bar> \<le> 2 ^ 34 \<Longrightarrow> \<bar>fl x - x\<bar> \<le> eps"
  using fl_err [of x 34] by (simp add: eps_def)

lemma fl0: "\<bar>x\<bar> \<le> 1 \<Longrightarrow> \<bar>fl x - x\<bar> \<le> 1 / 2 ^ 53"
  using fl_err [of x 0] by simp

lemma Math_round_err: "\<bar>Math_round x - x\<bar> \<le> 1 / 2"
proof -
  have "of_int \<lfloor>x + 1 / 2\<rfloor> \<le> x + 1 / 2" "x + 1 / 2 < of_int \<lfloor>x + 1 / 2\<rfloor> + 1"
    by linarith+
  then show ?thesis unfolding Math_round_def by linarith
qed

lemma mult_err:
  fixes a :: rat
  assumes "\<bar>a' - a\<bar> \<le> ea" "\<bar>b' - b\<bar> \<le> eb" "\<bar>a'\<bar> \<le> A" "\<bar>b\<bar> \<le> B"
  shows "\<bar>a' * b' - a * b\<bar> \<le> A * eb + ea * B"
proof -
  have "a' * b' - a * b = a' * (b' - b) + (a' - a) * b" by (simp add: algebra_simps)
  then have "\<bar>a' * b' - a * b\<bar> \<le> \<bar>a'\<bar> * \<bar>b' - b\<bar> + \<bar>a' - a\<bar> * \<bar>b\<bar>"
    by (metis abs_mult abs_triangle_ineq)
  moreover have "\<bar>a'\<bar> * \<bar>b' - b\<bar> \<le> A * eb"
    using assms by (intro mult_mono) auto
  moreover have "\<bar>a' - a\<bar> * \<bar>b\<bar> \<le> ea * B"
    using assms by (intro mult_mono) auto
  ultimately show ?thesis by linarith
qed

lemma product_err:
  assumes d: "\<bar>d' - d\<bar> \<le> ed" and p: "\<bar>p' - p\<bar> \<le> 1 / 2 ^ 53"
    and bd: "\<bar>d\<bar> \<le> 2 ^ 33" and bp: "\<bar>p\<bar> \<le> 1" and ed: "ed \<le> 1"
  shows "\<bar>fmul d' p' - d * p\<bar> \<le> ed + 2 * eps" and "\<bar>d * p\<bar> \<le> 2 ^ 33"
proof -
  define v :: rat where "v = 1 / 2 ^ 53"
  define D :: rat where "D = 2 ^ 33 + 1"
  have c: "D * v \<le> eps" by (simp add: D_def v_def eps_def)
  have d3: "\<bar>d'\<bar> \<le> D" unfolding D_def using d bd ed by linarith
  have pr: "\<bar>d' * p' - d * p\<bar> \<le> D * v + ed * 1"
    using p unfolding v_def [symmetric] by (rule mult_err [OF d _ d3 bp])
  have "\<bar>d\<bar> * \<bar>p\<bar> \<le> 2 ^ 33 * 1"
    using bd bp by (intro mult_mono) simp_all
  then show prb: "\<bar>d * p\<bar> \<le> 2 ^ 33" by (simp add: abs_mult)
  have e1: "eps \<le> 1" by (simp add: eps_def)
  have "\<bar>d' * p'\<bar> \<le> 2 ^ 33 + 2" using pr prb c ed e1 by linarith
  then have "\<bar>d' * p'\<bar> \<le> 2 ^ 34" by simp
  then have "\<bar>fl (d' * p') - d' * p'\<bar> \<le> eps" by (rule fl34)
  then show "\<bar>fmul d' p' - d * p\<bar> \<le> ed + 2 * eps"
    unfolding fmul_def using pr c by linarith
qed

lemma interp_err:
  assumes a: "\<bar>a' - a\<bar> \<le> ea" and b: "\<bar>b' - b\<bar> \<le> eb"
    and p: "\<bar>p' - p\<bar> \<le> 1 / 2 ^ 53"
    and ba: "\<bar>a\<bar> \<le> 2 ^ 32" and bb: "\<bar>b\<bar> \<le> 2 ^ 32" and bp: "\<bar>p\<bar> \<le> 1"
    and ea: "ea \<le> 1 / 4" and eb: "eb \<le> 1 / 4"
  shows "\<bar>fadd a' (fmul (fsub b' a') p') - (a + (b - a) * p)\<bar> \<le> 2 * ea + eb + 4 * eps"
proof -
  define d' where "d' = fsub b' a'"
  have e1: "eps \<le> 1 / 4" by (simp add: eps_def)
  have "\<bar>b' - a'\<bar> \<le> 2 ^ 33 + 1" using a b ba bb ea eb by (simp; linarith)
  then have "\<bar>b' - a'\<bar> \<le> 2 ^ 34" by simp
  then have "\<bar>d' - (b' - a')\<bar> \<le> eps"
    unfolding d'_def fsub_def by (rule fl34)
  then have d2: "\<bar>d' - (b - a)\<bar> \<le> eps + ea + eb" using a b by linarith
  have bd: "\<bar>b - a\<bar> \<le> 2 ^ 33" using ba bb by (simp; linarith)
  have ed: "eps + ea + eb \<le> 1" using e1 ea eb by linarith
  note m = product_err [OF d2 p bd bp ed]
  have "\<bar>a' + fmul d' p'\<bar> \<le> 2 ^ 32 + 2 ^ 33 + 2"
    using m a ba ea eb e1 by (simp; linarith)
  then have "\<bar>a' + fmul d' p'\<bar> \<le> 2 ^ 34" by simp
  then have "\<bar>fl (a' + fmul d' p') - (a' + fmul d' p')\<bar> \<le> eps" by (rule fl34)
  then show ?thesis
    unfolding fadd_def d'_def [symmetric] using m(1) a by linarith
qed

lemma interp_scaled_err:
  assumes a: "\<bar>a' - a\<bar> \<le> ea" and b: "\<bar>b' - b\<bar> \<le> eb"
    and p: "\<bar>p' - p\<bar> \<le> 1 / 2 ^ 53" and k: "\<bar>k' - k\<bar> \<le> 1 / 2 ^ 53"
    and ba: "\<bar>a\<bar> \<le> 2 ^ 32" and bb: "\<bar>b\<bar> \<le> 2 ^ 32"
    and bp: "\<bar>p\<bar> \<le> 1" and bk: "\<bar>k\<bar> \<le> 1"
    and ea: "ea \<le> 1 / 4" and eb: "eb \<le> 1 / 4"
  shows "\<bar>fadd a' (fmul (fmul (fsub b' a') p') k') - (a + (b - a) * p * k)\<bar>
           \<le> 2 * ea + eb + 6 * eps"
proof -
  define d' where "d' = fsub b' a'"
  have e1: "eps \<le> 1 / 8" by (simp add: eps_def)
  have "\<bar>b' - a'\<bar> \<le> 2 ^ 33 + 1" using a b ba bb ea eb by (simp; linarith)
  then have "\<bar>b' - a'\<bar> \<le> 2 ^ 34" by simp
  then have "\<bar>d' - (b' - a')\<bar> \<le> eps"
    unfolding d'_def fsub_def by (rule fl34)
  then have d2: "\<bar>d' - (b - a)\<bar> \<le> eps + ea + eb" using a b by linarith
  have bd: "\<bar>b - a\<bar> \<le> 2 ^ 33" using ba bb by (simp; linarith)
  have ed: "eps + ea + eb \<le> 1" using e1 ea eb by linarith
  note m = product_err [OF d2 p bd bp ed]
  have em: "eps + ea + eb + 2 * eps \<le> 1" using e1 ea eb by linarith
  note n = product_err [OF m(1) k m(2) bk em]
  have "\<bar>a' + fmul (fmul d' p') k'\<bar> \<le> 2 ^ 32 + 2 ^ 33 + 2"
    using n a ba ea eb e1 by (simp; linarith)
  then have "\<bar>a' + fmul (fmul d' p') k'\<bar> \<le> 2 ^ 34" by simp
  then have "\<bar>fl (a' + fmul (fmul d' p') k') - (a' + fmul (fmul d' p') k')\<bar> \<le> eps"
    by (rule fl34)
  then show ?thesis
    unfolding fadd_def d'_def [symmetric] using n(1) a by linarith
qed

lemma entry_err:
  assumes "\<bar>l\<bar> \<le> 2 ^ 30"
  shows "\<bar>fmul l (fl 0.9) - l * 0.9\<bar> \<le> 2 * eps"
proof -
  have l: "\<bar>l - l\<bar> \<le> 0" "\<bar>l\<bar> \<le> 2 ^ 33" using assms by (simp; linarith)+
  have c: "\<bar>fl 0.9 - 0.9\<bar> \<le> 1 / 2 ^ 53" by (rule fl0) simp
  show ?thesis using product_err(1) [OF l(1) c l(2)] by simp
qed

lemma progress_err:
  assumes "0 \<le> n" "n \<le> k" "0 < k"
  shows "\<bar>fdiv (of_int n) (of_int k) - of_int n / of_int k\<bar> \<le> 1 / 2 ^ 53"
    and "\<bar>rat_of_int n / of_int k\<bar> \<le> 1"
proof -
  show "\<bar>rat_of_int n / of_int k\<bar> \<le> 1" using assms by simp
  then show "\<bar>fdiv (of_int n) (of_int k) - of_int n / of_int k\<bar> \<le> 1 / 2 ^ 53"
    unfolding fdiv_def by (rule fl0)
qed

lemma min_one_err:
  fixes f :: rat
  assumes "\<bar>f - z\<bar> \<le> v"
  shows "\<bar>min f 1 - min z 1\<bar> \<le> v"
  using assms by linarith

lemma anchor_bounds:
  fixes l :: rat
  assumes "\<bar>l\<bar> \<le> 2 ^ 30" "\<bar>m\<bar> \<le> 2 ^ 30"
  shows "\<bar>l * 0.9 + (m - l * 0.9) * 0.5\<bar> \<le> 2 ^ 32"
    and "\<bar>l + (m - l) * 0.6\<bar> \<le> 2 ^ 32"
proof -
  define B :: rat where "B = 2 ^ 30"
  have B: "\<bar>l\<bar> \<le> B" "\<bar>m\<bar> \<le> B" "2 * B \<le> 2 ^ 32"
    using assms by (simp_all add: B_def)
  have "l * 0.9 + (m - l * 0.9) * 0.5 = (9 / 20) * l + (1 / 2) * m"
    by (simp add: field_simps)
  moreover have "\<bar>(9 / 20) * l + (1 / 2) * m\<bar> \<le> 2 * B" using B(1,2) by linarith
  ultimately have "\<bar>l * 0.9 + (m - l * 0.9) * 0.5\<bar> \<le> 2 * B" by (simp only:)
  then show "\<bar>l * 0.9 + (m - l * 0.9) * 0.5\<bar> \<le> 2 ^ 32" using B(3) by (rule order_trans)
  have "l + (m - l) * 0.6 = (2 / 5) * l + (3 / 5) * m" by (simp add: field_simps)
  moreover have "\<bar>(2 / 5) * l + (3 / 5) * m\<bar> \<le> 2 * B" using B(1,2) by linarith
  ultimately have "\<bar>l + (m - l) * 0.6\<bar> \<le> 2 * B" by (simp only:)
  then show "\<bar>l + (m - l) * 0.6\<bar> \<le> 2 ^ 32" using B(3) by (rule order_trans)
qed

lemma round_bound:
  assumes "\<bar>r - x\<bar> \<le> b" "b \<le> 20 * eps"
  shows "\<bar>Math_round r - x\<bar> \<le> 1 / 2 + 20 * eps"
  using assms Math_round_err [of r] by linarith

lemma late_progress_err:
  assumes "0 \<le> n"
  shows "\<bar>min (fdiv (of_int n) 10) 1 - min (of_int n / 10) 1\<bar> \<le> 1 / 2 ^ 53"
    and "\<bar>min (rat_of_int n / 10) 1\<bar> \<le> 1"
proof -
  have n: "0 \<le> rat_of_int n" using assms by simp
  then show "\<bar>min (rat_of_int n / 10) 1\<bar> \<le> 1" by (simp add: min_def)
  show "\<bar>min (fdiv (of_int n) 10) 1 - min (of_int n / 10) 1\<bar> \<le> 1 / 2 ^ 53"
  proof (cases "1 \<le> rat_of_int n / 10")
    case True
    then have "1 \<le> fdiv (of_int n) 10" unfolding fdiv_def by (rule fl_ge_one)
    with True show ?thesis by (simp add: min_def)
  next
    case False
    then have "\<bar>rat_of_int n / 10\<bar> \<le> 1" using n by simp
    then have "\<bar>fdiv (of_int n) 10 - of_int n / 10\<bar> \<le> 1 / 2 ^ 53"
      unfolding fdiv_def by (rule fl0)
    then show ?thesis by (rule min_one_err)
  qed
qed

lemma currentSalary_err:
  assumes L: "\<bar>salaryLow cd\<bar> \<le> 2 ^ 30" and M: "\<bar>medianSalary cd\<bar> \<le> 2 ^ 30"
    and H: "\<bar>salaryHigh cd\<bar> \<le> 2 ^ 30"
  shows "\<bar>currentSalary cd y
           - salaryCurve_spec (salaryLow cd) (medianSalary cd) (salaryHigh cd) (of_int (y - 1))\<bar>
         \<le> 1 / 2 + 20 * eps"
proof -
  define l where "l = salaryLow cd"
  define m where "m = medianSalary cd"
  define h where "h = salaryHigh cd"
  define A' where "A' = fmul l (fl 0.9)"
  define n where "n = y - 1"
  note L = L [folded l_def] and M = M [folded m_def] and H = H [folded h_def]
  have e: "0 \<le> eps" "eps \<le> 1 / 64" by (simp_all add: eps_def)
  have A: "\<bar>A' - l * 0.9\<bar> \<le> 2 * eps" unfolding A'_def using L by (rule entry_err)
  have bA: "\<bar>l * 0.9\<bar> \<le> 2 ^ 32" using L by (simp; linarith)
  have bM: "\<bar>m\<bar> \<le> 2 ^ 32" using M by (simp; linarith)
  have bH: "\<bar>h\<bar> \<le> 2 ^ 32" using H by (simp; linarith)
  have eM: "\<bar>m - m\<bar> \<le> 0" and eH: "\<bar>h - h\<bar> \<le> 0" by simp_all
  have c5: "\<bar>fl 0.5 - 0.5\<bar> \<le> 1 / 2 ^ 53" using fl_half by simp
  have c6: "\<bar>fl 0.6 - 0.6\<bar> \<le> 1 / 2 ^ 53" by (rule fl0) simp
  have b5: "\<bar>0.5 :: rat\<bar> \<le> 1" and b6: "\<bar>0.6 :: rat\<bar> \<le> 1" by simp_all
  have z: "(0 :: rat) \<le> 1 / 4" by simp
  have le: "(rat_of_int n \<le> 0) = (n \<le> 0)" "(rat_of_int n \<le> 2) = (n \<le> 2)"
    "(rat_of_int n \<le> 5) = (n \<le> 5)" "(rat_of_int n \<le> 10) = (n \<le> 10)"
    by linarith+
  consider (entry) "n \<le> 0"
    | (early) "0 < n" "n \<le> 2"
    | (mid) "2 < n" "n \<le> 5"
    | (senior) "5 < n" "n \<le> 10"
    | (late) "10 < n"
    by linarith
  then have "\<bar>currentSalary cd (n + 1) - salaryCurve_spec l m h (of_int n)\<bar> \<le> 1 / 2 + 20 * eps"
  proof cases
    case entry
    have cs: "currentSalary cd (n + 1) = Math_round A'"
      using entry by (simp add: currentSalary_def A'_def l_def)
    have sp: "salaryCurve_spec l m h (of_int n) = l * 0.9"
      using entry by (simp add: salaryCurve_spec_def le)
    show ?thesis unfolding cs sp using A by (rule round_bound) (use e in linarith)
  next
    case early
    define p' where "p' = fdiv (of_int n) (of_int 2)"
    define r' where "r' = fadd A' (fmul (fmul (fsub m A') p') (fl 0.5))"
    have cs: "currentSalary cd (n + 1) = Math_round r'"
      using early by (simp add: currentSalary_def Let_def r'_def p'_def A'_def l_def m_def)
    have sp: "salaryCurve_spec l m h (of_int n)
                = l * 0.9 + (m - l * 0.9) * (of_int n / of_int 2) * 0.5"
      using early by (simp add: salaryCurve_spec_def lerp_def le field_simps)
    have p: "\<bar>p' - of_int n / of_int 2\<bar> \<le> 1 / 2 ^ 53" "\<bar>rat_of_int n / of_int 2\<bar> \<le> 1"
      unfolding p'_def using early by (intro progress_err; simp)+
    have ea: "2 * eps \<le> 1 / 4" using e by linarith
    have "\<bar>r' - (l * 0.9 + (m - l * 0.9) * (of_int n / of_int 2) * 0.5)\<bar>
            \<le> 2 * (2 * eps) + 0 + 6 * eps"
      unfolding r'_def by (rule interp_scaled_err [OF A eM p(1) c5 bA bM p(2) b5 ea z])
    then show ?thesis unfolding cs sp by (rule round_bound) (use e in linarith)
  next
    case mid
    define p' where "p' = fdiv (of_int (n - 2)) (of_int 3)"
    define s' where "s' = fadd A' (fmul (fsub m A') (fl 0.5))"
    define s where "s = l * 0.9 + (m - l * 0.9) * 0.5"
    define r' where "r' = fadd s' (fmul (fsub m s') p')"
    have cs: "currentSalary cd (n + 1) = Math_round r'"
      using mid by (simp add: currentSalary_def Let_def r'_def s'_def p'_def A'_def l_def m_def)
    have sp: "salaryCurve_spec l m h (of_int n)
                = s + (m - s) * (of_int (n - 2) / of_int 3)"
      using mid by (simp add: salaryCurve_spec_def lerp_def le s_def field_simps)
    have p: "\<bar>p' - of_int (n - 2) / of_int 3\<bar> \<le> 1 / 2 ^ 53"
      "\<bar>rat_of_int (n - 2) / of_int 3\<bar> \<le> 1"
      unfolding p'_def using mid by (intro progress_err; simp)+
    have ea: "2 * eps \<le> 1 / 4" using e by linarith
    have S: "\<bar>s' - s\<bar> \<le> 2 * (2 * eps) + 0 + 4 * eps"
      unfolding s'_def s_def by (rule interp_err [OF A eM c5 bA bM b5 ea z])
    have bS: "\<bar>s\<bar> \<le> 2 ^ 32" unfolding s_def using L M by (rule anchor_bounds(1))
    have es: "2 * (2 * eps) + 0 + 4 * eps \<le> 1 / 4" using e by linarith
    have "\<bar>r' - (s + (m - s) * (of_int (n - 2) / of_int 3))\<bar>
            \<le> 2 * (2 * (2 * eps) + 0 + 4 * eps) + 0 + 4 * eps"
      unfolding r'_def by (rule interp_err [OF S eM p(1) bS bM p(2) es z])
    then show ?thesis unfolding cs sp by (rule round_bound) simp
  next
    case senior
    define p' where "p' = fdiv (of_int (n - 5)) (of_int 5)"
    define r' where "r' = fadd m (fmul (fmul (fsub h m) p') (fl 0.6))"
    have cs: "currentSalary cd (n + 1) = Math_round r'"
      using senior by (simp add: currentSalary_def Let_def r'_def p'_def m_def h_def)
    have sp: "salaryCurve_spec l m h (of_int n)
                = m + (h - m) * (of_int (n - 5) / of_int 5) * 0.6"
      using senior by (simp add: salaryCurve_spec_def lerp_def le field_simps)
    have p: "\<bar>p' - of_int (n - 5) / of_int 5\<bar> \<le> 1 / 2 ^ 53"
      "\<bar>rat_of_int (n - 5) / of_int 5\<bar> \<le> 1"
      unfolding p'_def using senior by (intro progress_err; simp)+
    have "\<bar>r' - (m + (h - m) * (of_int (n - 5) / of_int 5) * 0.6)\<bar>
            \<le> 2 * 0 + 0 + 6 * eps"
      unfolding r'_def by (rule interp_scaled_err [OF eM eH p(1) c6 bM bH p(2) b6 z z])
    then show ?thesis unfolding cs sp by (rule round_bound) (use e in linarith)
  next
    case late
    define p' where "p' = min (fdiv (of_int (n - 10)) 10) 1"
    define p where "p = min (rat_of_int (n - 10) / 10) 1"
    define s' where "s' = fadd m (fmul (fsub h m) (fl 0.6))"
    define s where "s = m + (h - m) * 0.6"
    define r' where "r' = fadd s' (fmul (fmul (fsub h s') p') (fl 0.5))"
    have cs: "currentSalary cd (n + 1) = Math_round r'"
      using late by (simp add: currentSalary_def Let_def r'_def s'_def p'_def m_def h_def)
    have sp: "salaryCurve_spec l m h (of_int n) = s + (h - s) * p * 0.5"
      using late by (simp add: salaryCurve_spec_def lerp_def le s_def p_def field_simps)
    have p: "\<bar>p' - p\<bar> \<le> 1 / 2 ^ 53" "\<bar>p\<bar> \<le> 1"
      unfolding p'_def p_def using late by (intro late_progress_err; simp)+
    have S: "\<bar>s' - s\<bar> \<le> 2 * 0 + 0 + 4 * eps"
      unfolding s'_def s_def by (rule interp_err [OF eM eH c6 bM bH b6 z z])
    have bS: "\<bar>s\<bar> \<le> 2 ^ 32" unfolding s_def using M H by (rule anchor_bounds(2))
    have es: "2 * 0 + 0 + 4 * eps \<le> 1 / 4" using e by linarith
    have "\<bar>r' - (s + (h - s) * p * 0.5)\<bar> \<le> 2 * (2 * 0 + 0 + 4 * eps) + 0 + 6 * eps"
      unfolding r'_def by (rule interp_scaled_err [OF S eH p(1) c5 bS bH p(2) b5 es z])
    then show ?thesis unfolding cs sp by (rule round_bound) (use e in simp)
  qed
  then show ?thesis by (simp add: n_def l_def m_def h_def)
qed

lemma currentSalary_int: "\<exists>k. currentSalary cd y = of_int k"
  by (simp add: currentSalary_def Math_round_def Let_def)

lemma salaryCurve_spec_anchors:
  "salaryCurve_spec low median high 0 = 0.9 * low"
  "salaryCurve_spec low median high 2 = (0.9 * low + median) / 2"
  "salaryCurve_spec low median high 5 = median"
  "salaryCurve_spec low median high 10 = median + 0.6 * (high - median)"
  "salaryCurve_spec low median high 20
     = median + 0.6 * (high - median) + 0.5 * (high - (median + 0.6 * (high - median)))"
  by (simp_all add: salaryCurve_spec_def lerp_def field_simps)

text \<open>
  Claim C5 says that for every career profile and every career year the simulated salary
  follows the piecewise curve, which the program rounds to a whole number. The program
  evaluates the curve in binary64, and the rounding errors can carry the value across a
  half: for the low salary 254571 and the median salary 297593.1 (the double nearest to
  it) the curve is just below 263353.5 in the third career year, whose rounding is
  263353, and the simulated salary is 263354.
\<close>

theorem salary_is_not_the_rounded_curve:
  "medianSalary borderline = fl (2975931 / 10)
   \<and> currentSalary borderline 3 = 263354
   \<and> Math_round (salaryCurve_spec (salaryLow borderline) (medianSalary borderline)
        (salaryHigh borderline) (of_int (3 - 1))) = 263353"
  by code_simp

text \<open>
  Claim C5, amended. For salaries of magnitude at most \<open>2\<^sup>3\<^sup>0\<close> and every career year
  the simulated salary is a whole number within 0.5001 of the piecewise curve at
  \<open>e = careerYear - 1\<close>: it lies between the roundings of the curve lowered and raised by
  0.0001, so it is the rounding of the curve unless the curve passes within 0.0001 of a
  half. The curve is the one of the specification (\<open>salaryCurve_spec_anchors\<close>): 0.9
  times the low salary at \<open>e \<le> 0\<close>, the midpoint between that and the median at
  \<open>e = 2\<close>, the median at \<open>e = 5\<close>, median + 0.6 (high - median) at \<open>e = 10\<close>, and half
  of the remaining gap to the high salary closed at \<open>e = 20\<close>.
\<close>

theorem salary_within_rounding_error_of_curve:
  assumes "\<bar>salaryLow cd\<bar> \<le> 2 ^ 30" "\<bar>medianSalary cd\<bar> \<le> 2 ^ 30" "\<bar>salaryHigh cd\<bar> \<le> 2 ^ 30"
  shows "currentSalary cd y \<in> \<int>
    \<and> \<bar>currentSalary cd y
         - salaryCurve_spec (salaryLow cd) (medianSalary cd) (salaryHigh cd) (of_int (y - 1))\<bar>
        \<le> 1 / 2 + 1 / 10000
    \<and> Math_round (salaryCurve_spec (salaryLow cd) (medianSalary cd) (salaryHigh cd)
          (of_int (y - 1)) - 1 / 10000) \<le> currentSalary cd y
    \<and> currentSalary cd y
        \<le> Math_round (salaryCurve_spec (salaryLow cd) (medianSalary cd) (salaryHigh cd)
            (of_int (y - 1)) + 1 / 10000)"
proof -
  define c where
    "c = salaryCurve_spec (salaryLow cd) (medianSalary cd) (salaryHigh cd) (of_int (y - 1))"
  obtain k where k: "currentSalary cd y = of_int k" using currentSalary_int by blast
  have b: "\<bar>rat_of_int k - c\<bar> \<le> 1 / 2 + 20 * eps"
    using currentSalary_err [OF assms, of y] by (simp only: k c_def)
  have d: "20 * eps < 1 / 10000" by (simp add: eps_def)
  have "c - 1 / 10000 + 1 / 2 < of_int k + 1" using b d by linarith
  then have lo: "Math_round (c - 1 / 10000) \<le> of_int k"
    unfolding Math_round_def by (simp only: of_int_le_iff floor_le_iff)
  have "rat_of_int k \<le> c + 1 / 10000 + 1 / 2" using b d by linarith
  then have hi: "of_int k \<le> Math_round (c + 1 / 10000)"
    unfolding Math_round_def by (simp only: of_int_le_iff le_floor_iff)
  have "\<bar>rat_of_int k - c\<bar> \<le> 1 / 2 + 1 / 10000" using b d by linarith
  then show ?thesis using lo hi unfolding k c_def [symmetric] by simp
qed

theorem salary_within_rounding_error_of_curve_witness:
  "\<bar>salaryLow borderline\<bar> \<le> 2 ^ 30 \<and> \<bar>medianSalary borderline\<bar> \<le> 2 ^ 30
   \<and> \<bar>salaryHigh borderline\<bar> \<le> 2 ^ 30
   \<and> currentSalary borderline 3 \<in> \<int>
   \<and> \<bar>currentSalary borderline 3
        - salaryCurve_spec (salaryLow borderline) (medianSalary borderline)
            (salaryHigh borderline) (of_int (3 - 1))\<bar> \<le> 1 / 2 + 1 / 10000
   \<and> Math_round (salaryCurve_spec (salaryLow borderline) (medianSalary borderline)
         (salaryHigh borderline) (of_int (3 - 1)) - 1 / 10000) \<le> currentSalary borderline 3
   \<and> currentSalary borderline 3
       \<le> Math_round (salaryCurve_spec (salaryLow borderline) (medianSalary borderline)
           (salaryHigh borderline) (of_int (3 - 1)) + 1 / 10000)"
proof -
  have h: "\<bar>salaryLow borderline\<bar> \<le> 2 ^ 30" "\<bar>medianSalary borderline\<bar> \<le> 2 ^ 30"
    "\<bar>salaryHigh borderline\<bar> \<le> 2 ^ 30"
    by (simp_all add: borderline_def)
  show ?thesis
    using h salary_within_rounding_error_of_curve [OF h, of 3] by (simp only: simp_thms)
qed


subsection \<open>The career loop and the break-even age\<close>

declare careerLoop.simps [simp del] careerNetWorths.simps [simp del]

lemma careerYear_breakEvenAge:
  "breakEvenAge (careerYear c p cd n y s) =
     (case breakEvenAge s of
        Some a \<Rightarrow> Some a
      | None \<Rightarrow>
          (if unroundedNetWorth (careerYear c p cd n y s) > 0
           then Some (careerStartAge p cd + y - 1) else None))"
  by (simp add: careerYear_def unroundedNetWorth_def Let_def split: option.splits)

lemma careerLoop_breakEvenAge:
  "breakEvenAge (careerLoop c p cd n y s) =
     (case breakEvenAge s of
        Some a \<Rightarrow> Some a
      | None \<Rightarrow> map_option fst (find (\<lambda>(a, nw). 0 < nw) (careerNetWorths c p cd n y s)))"
proof (induction c p cd n y s rule: careerLoop.induct)
  case (1 c p cd n y s)
  show ?case
  proof (cases "y \<le> yearsToShow p cd \<and> \<not> careerStartAge p cd + y - 1 > projectionEndAge p")
    case False
    then show ?thesis
      by (subst careerLoop.simps, subst careerNetWorths.simps) (auto split: option.splits)
  next
    case True
    then have IH: "breakEvenAge (careerLoop c p cd n (y + 1) (careerYear c p cd n y s)) =
      (case breakEvenAge (careerYear c p cd n y s) of
        Some a \<Rightarrow> Some a
      | None \<Rightarrow> map_option fst (find (\<lambda>(a, nw). 0 < nw)
          (careerNetWorths c p cd n (y + 1) (careerYear c p cd n y s))))"
      using "1.IH" by simp
    show ?thesis
      using True
      by (subst careerLoop.simps, subst careerNetWorths.simps)
         (simp add: IH careerYear_breakEvenAge [of c p cd n y s] Let_def split: option.splits)
  qed
qed

lemma fold_breakEvenAge:
  "(\<And>y s. breakEvenAge (f y s) = breakEvenAge s) \<Longrightarrow> breakEvenAge (fold f ys s) = breakEvenAge s"
  by (induction ys arbitrary: s) simp_all

lemma afterResidency_breakEvenAge: "breakEvenAge (afterResidency c p cd) = None"
  by (simp add: afterResidency_def afterGradSchool_def afterUndergrad_def initialSim_def
      fold_breakEvenAge residencyYear_def gradYear_def undergradYear_def Let_def)

lemma careerLoop_timeline:
  "\<exists>ext. timeline (careerLoop c p cd n y s) = timeline s @ ext
     \<and> map (\<lambda>e. (age e, netWorth e)) ext
         = map (\<lambda>(a, nw). (a, Math_round nw)) (careerNetWorths c p cd n y s)
     \<and> list_all (\<lambda>e. phase e = ''Career'') ext"
proof (induction c p cd n y s rule: careerLoop.induct)
  case (1 c p cd n y s)
  show ?case
  proof (cases "y \<le> yearsToShow p cd \<and> \<not> careerStartAge p cd + y - 1 > projectionEndAge p")
    case False
    then show ?thesis
      by (subst careerLoop.simps, subst careerNetWorths.simps) auto
  next
    case True
    let ?s = "careerYear c p cd n y s"
    from True "1.IH" obtain ext where ext:
      "timeline (careerLoop c p cd n (y + 1) ?s) = timeline ?s @ ext"
      "map (\<lambda>e. (age e, netWorth e)) ext
         = map (\<lambda>(a, nw). (a, Math_round nw)) (careerNetWorths c p cd n (y + 1) ?s)"
      "list_all (\<lambda>e. phase e = ''Career'') ext"
      by auto
    obtain e where e: "timeline ?s = timeline s @ [e]" "phase e = ''Career''"
      "age e = careerStartAge p cd + y - 1"
      "netWorth e = Math_round (unroundedNetWorth ?s)"
      by (simp add: careerYear_def unroundedNetWorth_def Let_def)
    have "timeline (careerLoop c p cd n y s) = timeline s @ (e # ext)"
      using True ext(1) e(1) by (subst careerLoop.simps) simp
    moreover have "map (\<lambda>e. (age e, netWorth e)) (e # ext)
         = map (\<lambda>(a, nw). (a, Math_round nw)) (careerNetWorths c p cd n y s)"
      using True ext(2) e(3,4) by (subst careerNetWorths.simps) (simp add: Let_def)
    moreover have "list_all (\<lambda>e. phase e = ''Career'') (e # ext)"
      using ext(3) e(2) by simp
    ultimately show ?thesis by blast
  qed
qed

subsection \<open>The college's median debt is never read\<close>

lemma getStickerPrice_medianDebt:
  "getStickerPrice (c\<lparr>medianDebt := d\<rparr>) i r = getStickerPrice c i r"
  by (simp add: getStickerPrice_def)

lemma isInState_medianDebt: "isInState (c\<lparr>medianDebt := d\<rparr>) p = isInState c p"
  by (simp add: isInState_def)

lemma stickerPriceWithRB_medianDebt:
  "stickerPriceWithRB (c\<lparr>medianDebt := d\<rparr>) p = stickerPriceWithRB c p"
  by (simp add: stickerPriceWithRB_def getStickerPrice_medianDebt isInState_medianDebt)

lemma stickerPriceTuitionOnly_medianDebt:
  "stickerPriceTuitionOnly (c\<lparr>medianDebt := d\<rparr>) p = stickerPriceTuitionOnly c p"
  by (simp add: stickerPriceTuitionOnly_def getStickerPrice_medianDebt isInState_medianDebt)

lemma adjustedUndergradCost_medianDebt:
  "adjustedUndergradCost (c\<lparr>medianDebt := d\<rparr>) p = adjustedUndergradCost c p"
  by (simp add: adjustedUndergradCost_def undergradCostWithRB_def stickerPriceWithRB_medianDebt)

lemma undergradDebt_medianDebt: "undergradDebt (c\<lparr>medianDebt := d\<rparr>) p = undergradDebt c p"
  by (simp add: undergradDebt_def adjustedUndergradCost_medianDebt)

lemma totalDebt_medianDebt: "totalDebt (c\<lparr>medianDebt := d\<rparr>) p cd = totalDebt c p cd"
  by (simp add: totalDebt_def undergradDebt_medianDebt)

lemma getAidAdjustedPrice_medianDebt:
  "getAidAdjustedPrice (c\<lparr>medianDebt := d\<rparr>) b = getAidAdjustedPrice c b"
  by (simp add: getAidAdjustedPrice_def split: option.split)

lemma aidAdjustedUndergrad_medianDebt:
  "aidAdjustedUndergrad (c\<lparr>medianDebt := d\<rparr>) p = aidAdjustedUndergrad c p"
  by (simp add: aidAdjustedUndergrad_def aidAdjustedPerYear_def getAidAdjustedPrice_medianDebt)

lemma careerYear_medianDebt:
  "careerYear (c\<lparr>medianDebt := d\<rparr>) p cd n y s = careerYear c p cd n y s"
  unfolding careerYear_def totalDebt_medianDebt ..

lemma careerLoop_medianDebt:
  "careerLoop (c\<lparr>medianDebt := d\<rparr>) p cd n y s = careerLoop c p cd n y s"
proof (induction c p cd n y s rule: careerLoop.induct)
  case (1 c p cd n y s)
  show ?case
  proof (cases "y \<le> yearsToShow p cd \<and> \<not> careerStartAge p cd + y - 1 > projectionEndAge p")
    case False
    then show ?thesis
      by (subst careerLoop.simps, subst (2) careerLoop.simps) auto
  next
    case True
    then have "careerLoop (c\<lparr>medianDebt := d\<rparr>) p cd n (y + 1) (careerYear c p cd n y s)
      = careerLoop c p cd n (y + 1) (careerYear c p cd n y s)"
      using "1.IH" by simp
    then show ?thesis
      using True
      by (subst careerLoop.simps, subst (2) careerLoop.simps) (simp add: careerYear_medianDebt)
  qed
qed

lemma undergradYear_medianDebt:
  "undergradYear (c\<lparr>medianDebt := d\<rparr>) p = undergradYear c p"
  unfolding undergradYear_def stickerPriceWithRB_medianDebt ..

lemma afterResidency_medianDebt:
  "afterResidency (c\<lparr>medianDebt := d\<rparr>) p cd = afterResidency c p cd"
  unfolding afterResidency_def afterGradSchool_def afterUndergrad_def undergradYear_medianDebt ..

lemma afterCareer_medianDebt:
  "afterCareer (c\<lparr>medianDebt := d\<rparr>) p cd = afterCareer c p cd"
  unfolding afterCareer_def afterResidency_medianDebt careerLoop_medianDebt ..

lemma generateLifePath_medianDebt:
  "generateLifePath (c\<lparr>medianDebt := d\<rparr>) p cd = generateLifePath c p cd"
  unfolding generateLifePath_def afterCareer_medianDebt adjustedUndergradCost_medianDebt
    undergradCostWithRB_def undergradCostTuitionOnly_def stickerPriceWithRB_medianDebt
    stickerPriceTuitionOnly_medianDebt aidAdjustedUndergrad_medianDebt totalDebt_medianDebt ..

subsection \<open>The example paths, evaluated\<close>

lemma surgeonPath_18:
  "surgeonPath 18 =
     \<lparr>pathTimeline =
        [\<lparr>year = 1, age = 18, phase = ''College'', earnings = None,
           debt = 18000, netWorth = - 18000\<rparr>,
         \<lparr>year = 2, age = 19, phase = ''College'', earnings = None,
           debt = 36000, netWorth = - 36000\<rparr>,
         \<lparr>year = 3, age = 20, phase = ''College'', earnings = None,
           debt = 54000, netWorth = - 54000\<rparr>,
         \<lparr>year = 4, age = 21, phase = ''College'', earnings = None,
           debt = 72000, netWorth = - 72000\<rparr>,
         \<lparr>year = 5, age = 22, phase = ''Grad School'', earnings = None,
           debt = 132000, netWorth = - 132000\<rparr>,
         \<lparr>year = 6, age = 23, phase = ''Grad School'', earnings = None,
           debt = 192000, netWorth = - 192000\<rparr>,
         \<lparr>year = 7, age = 24, phase = ''Grad School'', earnings = None,
           debt = 252000, netWorth = - 252000\<rparr>,
         \<lparr>year = 8, age = 25, phase = ''Grad School'', earnings = None,
           debt = 312000, netWorth = - 312000\<rparr>,
         \<lparr>year = 9, age = 26, phase = ''Residency'', earnings = Some 70000,
           debt = 322600, netWorth = - 252600\<rparr>,
         \<lparr>year = 10, age = 27, phase = ''Residency'', earnings = Some 70000,
           debt = 333730, netWorth = - 193730\<rparr>,
         \<lparr>year = 11, age = 28, phase = ''Residency'', earnings = Some 70000,
           debt = 345417, netWorth = - 135416\<rparr>,
         \<lparr>year = 12, age = 29, phase = ''Residency'', earnings = Some 70000,
           debt = 357687, netWorth = - 77687\<rparr>,
         \<lparr>year = 13, age = 30, phase = ''Residency'', earnings = Some 70000,
           debt = 370572, netWorth = - 20572\<rparr>,
         \<lparr>year = 14, age = 31, phase = ''Residency'', earnings = Some 70000,
           debt = 384100, netWorth = 35900\<rparr>,
         \<lparr>year = 15, age = 32, phase = ''Residency'', earnings = Some 70000,
           debt = 398305, netWorth = 91695\<rparr>,
         \<lparr>year = 16, age = 33, phase = ''Career'', earnings = Some 360000,
           debt = 371421, netWorth = - 364221\<rparr>,
         \<lparr>year = 17, age = 34, phase = ''Career'', earnings = Some 432500,
           debt = 343192, netWorth = - 317413\<rparr>,
         \<lparr>year = 18, age = 35, phase = ''Career'', earnings = Some 505000,
           debt = 313551, netWorth = - 257018\<rparr>],
      summary =
        \<lparr>totalCost = 360000,
         costBreakdown =
           \<lparr>undergradWithRoomBoard = 120000, undergradTuitionOnly = 80000,
            gradSchoolCost = 240000, breakdownAidAdjustedUndergrad = Some 56000\<rparr>,
         summaryPeakDebt = 312000, summaryBreakEvenAge = None,
         netWorthAt35 = - 257018\<rparr>\<rparr>"
  unfolding surgeonPath_def by code_simp

lemma surgeonPath_20_ages:
  "map (\<lambda>e. (year e, age e, phase e)) (take 6 (pathTimeline (surgeonPath 20))) =
     [(1, 20, ''College''), (2, 21, ''College''), (3, 22, ''College''), (4, 23, ''College''),
      (5, 22, ''Grad School''), (6, 23, ''Grad School'')]"
  unfolding surgeonPath_def by code_simp

lemma trainee_afterResidency:
  "cumulativeDebt (afterResidency cityCollege traineeProfile trainee) = - (12494201 / 4000)"
  by code_simp

lemma trainee_totalDebt: "totalDebt cityCollege traineeProfile trainee = 19200"
  by code_simp

lemma fold_accumulatedSavings:
  "(\<And>y s. accumulatedSavings (f y s) = accumulatedSavings s)
    \<Longrightarrow> accumulatedSavings (fold f ys s) = accumulatedSavings s"
  by (induction ys arbitrary: s) simp_all

lemma afterResidency_accumulatedSavings: "accumulatedSavings (afterResidency c p cd) = 0"
  by (simp add: afterResidency_def afterGradSchool_def afterUndergrad_def initialSim_def
      fold_accumulatedSavings residencyYear_def gradYear_def undergradYear_def Let_def)

lemma fold_peakDebt:
  "(\<And>y s. peakDebt (f y s) = peakDebt s) \<Longrightarrow> peakDebt (fold f ys s) = peakDebt s"
  by (induction ys arbitrary: s) simp_all

lemma careerLoop_peakDebt: "peakDebt (careerLoop c p cd n y s) = peakDebt s"
proof (induction c p cd n y s rule: careerLoop.induct)
  case (1 c p cd n y s)
  show ?case
  proof (cases "y \<le> yearsToShow p cd \<and> \<not> careerStartAge p cd + y - 1 > projectionEndAge p")
    case False
    then show ?thesis
      by (subst careerLoop.simps) auto
  next
    case True
    then have "peakDebt (careerLoop c p cd n (y + 1) (careerYear c p cd n y s))
      = peakDebt (careerYear c p cd n y s)"
      using "1.IH" by simp
    then show ?thesis
      using True by (subst careerLoop.simps) (simp add: careerYear_def Let_def)
  qed
qed

lemma summaryPeakDebt_afterGradSchool:
  "summaryPeakDebt (summary (generateLifePath c p cd))
     = Math_round (peakDebt (afterGradSchool c p cd))"
  by (simp add: generateLifePath_def Let_def afterCareer_def careerLoop_peakDebt
      afterResidency_def fold_peakDebt residencyYear_def)

subsection \<open>Claims about the timeline\<close>

text \<open>
  Claim C1 says that the summary's \<open>peakDebt\<close> is the maximum debt over all snapshots
  of the timeline. The running maximum is updated in the undergraduate and the
  graduate-school loop only, so for every input the reported peak is the one reached
  by the end of graduate school. In the example the debt keeps growing through the
  residency (5 percent interest on 312000 exceeds the reduction of 5000), so the
  reported peak, 312000, lies below the largest debt of the timeline, 398305.
\<close>

theorem peakDebt_below_residency_debt:
  "summaryPeakDebt (summary (generateLifePath c p cd))
     = Math_round (peakDebt (afterGradSchool c p cd))
   \<and> summaryPeakDebt (summary (surgeonPath 18)) = 312000
   \<and> Max (set (map debt (pathTimeline (surgeonPath 18)))) = 398305
   \<and> phase (pathTimeline (surgeonPath 18) ! 14) = ''Residency''
   \<and> debt (pathTimeline (surgeonPath 18) ! 14) = 398305"
  by (simp add: surgeonPath_18 summaryPeakDebt_afterGradSchool)

text \<open>
  Claim C2 says that every snapshot's net worth is accumulated savings minus debt, the
  savings being 0 before the career. In a residency year the net worth is instead the
  sum of the residency salaries so far minus the debt: in the first residency year of
  the example the savings are 0 and the debt is 322600, yet the net worth is
  70000 - 322600 = -252600.
\<close>

theorem residency_netWorth_counts_salaries:
  "accumulatedSavings (afterResidency stateCollege (student ''48001-75000'' ''ca'' 18) surgeon) = 0
   \<and> phase (pathTimeline (surgeonPath 18) ! 8) = ''Residency''
   \<and> earnings (pathTimeline (surgeonPath 18) ! 8) = Some 70000
   \<and> debt (pathTimeline (surgeonPath 18) ! 8) = 322600
   \<and> netWorth (pathTimeline (surgeonPath 18) ! 8) = - 252600"
  by (simp add: surgeonPath_18 afterResidency_accumulatedSavings)

text \<open>
  Claim C6 says that every snapshot's age is the starting age plus the year index minus
  one. The graduate-school and residency loops count the age from the constant 22. For
  a student who starts at 20, year 4 has age 23 and year 5, the first year of medical
  school, has age 22 where the claim requires 24.
\<close>

theorem grad_school_age_counts_from_22:
  "startAge (student ''48001-75000'' ''ca'' 20) = 20
   \<and> map (\<lambda>e. (year e, age e, phase e)) (take 6 (pathTimeline (surgeonPath 20))) =
     [(1, 20, ''College''), (2, 21, ''College''), (3, 22, ''College''), (4, 23, ''College''),
      (5, 22, ''Grad School''), (6, 23, ''Grad School'')]"
  by (simp add: surgeonPath_20_ages startAge_def student_def)

text \<open>
  Claim C7 says that the debt carried from year to year is never negative, a residency
  year flooring it at 0. The residency loop floors only the value it writes into the
  snapshot; the variable itself becomes \<open>debt * 1.05 - 5000\<close>. In the example the debt
  of 19200 after college is paid down over five training years, the variable enters
  the career phase at -3123.55025, and the first annual payment is that negative amount.
\<close>

theorem residency_leaves_negative_debt:
  "cumulativeDebt (afterResidency cityCollege traineeProfile trainee) = - (12494201 / 4000)
   \<and> cumulativeDebt (afterResidency cityCollege traineeProfile trainee) < 0
   \<and> annualPayment (totalDebt cityCollege traineeProfile trainee)
         (cumulativeDebt (afterResidency cityCollege traineeProfile trainee))
       = - (12494201 / 4000)"
  by (simp add: trainee_afterResidency trainee_totalDebt annualPayment_def)

subsection \<open>The break-even age\<close>

lemma trainee_trace_head:
  "find (\<lambda>(a, nw). 0 < nw) (careerTrace cityCollege traineeProfile trainee)
     = Some (27, 36794201 / 4000)"
proof -
  have n: "length (timeline (afterResidency cityCollege traineeProfile trainee)) = 9"
    by code_simp
  have c: "yearsToShow traineeProfile trainee = 9" "careerStartAge traineeProfile trainee = 27"
    "projectionEndAge traineeProfile = 35"
    by code_simp+
  have h: "unroundedNetWorth (careerYear cityCollege traineeProfile trainee 9 1
      (afterResidency cityCollege traineeProfile trainee)) = 36794201 / 4000"
    by code_simp
  show ?thesis
    unfolding careerTrace_def n by (subst careerNetWorths.simps) (simp add: c h)
qed

lemma wellPaid_first_year:
  "careerYear cityCollege traineeProfile wellPaid 4 1
     (afterResidency cityCollege traineeProfile wellPaid) =
   \<lparr>timeline =
      [\<lparr>year = 1, age = 18, phase = ''College'', earnings = None, debt = 4800,
         netWorth = - 4800\<rparr>,
       \<lparr>year = 2, age = 19, phase = ''College'', earnings = None, debt = 9600,
         netWorth = - 9600\<rparr>,
       \<lparr>year = 3, age = 20, phase = ''College'', earnings = None, debt = 14400,
         netWorth = - 14400\<rparr>,
       \<lparr>year = 4, age = 21, phase = ''College'', earnings = None, debt = 19200,
         netWorth = - 19200\<rparr>,
       \<lparr>year = 5, age = 22, phase = ''Career'', earnings = Some 134401, debt = 17280,
         netWorth = 0\<rparr>],
    cumulativeDebt = 17280, cumulativeEarnings = 0, peakDebt = 19200,
    breakEvenAge = Some 22, accumulatedSavings = 345603 / 20\<rparr>"
  by code_simp

lemma wellPaid_afterCareer:
  "afterCareer cityCollege traineeProfile wellPaid =
     careerLoop cityCollege traineeProfile wellPaid 4 2
       (careerYear cityCollege traineeProfile wellPaid 4 1
          (afterResidency cityCollege traineeProfile wellPaid))"
proof -
  have n: "int (length (timeline (afterResidency cityCollege traineeProfile wellPaid))) = 4"
    by code_simp
  have c: "yearsToShow traineeProfile wellPaid = 14" "careerStartAge traineeProfile wellPaid = 22"
    "projectionEndAge traineeProfile = 35"
    by code_simp+
  show ?thesis
    unfolding afterCareer_def n by (subst careerLoop.simps) (simp add: c)
qed

lemma wellPaid_path:
  "summaryBreakEvenAge (summary (generateLifePath cityCollege traineeProfile wellPaid)) = Some 22
   \<and> map (\<lambda>e. (age e, netWorth e))
        (take 5 (pathTimeline (generateLifePath cityCollege traineeProfile wellPaid)))
     = [(18, - 4800), (19, - 9600), (20, - 14400), (21, - 19200), (22, 0)]"
proof -
  let ?s = "careerYear cityCollege traineeProfile wellPaid 4 1
          (afterResidency cityCollege traineeProfile wellPaid)"
  obtain ext where ext:
    "timeline (careerLoop cityCollege traineeProfile wellPaid 4 2 ?s) = timeline ?s @ ext"
    using careerLoop_timeline by blast
  have "breakEvenAge (afterCareer cityCollege traineeProfile wellPaid) = Some 22"
    by (simp add: wellPaid_afterCareer careerLoop_breakEvenAge wellPaid_first_year)
  moreover have "take 5 (timeline (afterCareer cityCollege traineeProfile wellPaid))
      = timeline ?s"
    unfolding wellPaid_afterCareer ext by (simp add: wellPaid_first_year)
  ultimately show ?thesis
    by (simp add: generateLifePath_def Let_def wellPaid_first_year)
qed

text \<open>
  Claim C3 says that \<open>breakEvenAge\<close> is the age of the first snapshot, in any phase, whose
  net worth is strictly positive. It is set in the career loop only, from the net worth
  before rounding. In the first example the residency snapshot of age 31 is the first
  with a positive net worth (35900), and the summary's break-even age is \<^verbatim>\<open>null\<close>. In
  the second the break-even age is 22, the first career year, whose net worth of 0.15
  is 0 in the snapshot.
\<close>

theorem breakEvenAge_is_not_first_positive_snapshot:
  "map_option age (find (\<lambda>e. 0 < netWorth e) (pathTimeline (surgeonPath 18))) = Some 31
   \<and> summaryBreakEvenAge (summary (surgeonPath 18)) = None
   \<and> summaryBreakEvenAge (summary (generateLifePath cityCollege traineeProfile wellPaid))
       = Some 22
   \<and> map (\<lambda>e. (age e, netWorth e))
        (take 5 (pathTimeline (generateLifePath cityCollege traineeProfile wellPaid)))
     = [(18, - 4800), (19, - 9600), (20, - 14400), (21, - 19200), (22, 0)]"
  using wellPaid_path by (simp add: surgeonPath_18)

text \<open>
  Claim C3, amended. The break-even age is the age of the first year of the career loop
  whose net worth \<^verbatim>\<open>accumulatedSavings - cumulativeDebt\<close>, as computed before rounding, is
  strictly positive, and \<^verbatim>\<open>null\<close> when the loop has no such year; the ages and the rounded
  net worths of that trace are the ones of the career snapshots of the timeline; and a
  break-even age that is set is not changed by any later year.
\<close>

theorem breakEvenAge_first_positive_career_year:
  "summaryBreakEvenAge (summary (generateLifePath c p cd))
     = map_option fst (find (\<lambda>(a, nw). 0 < nw) (careerTrace c p cd))
   \<and> map (\<lambda>e. (age e, netWorth e)) (careerSnapshots c p cd)
     = map (\<lambda>(a, nw). (a, Math_round nw)) (careerTrace c p cd)
   \<and> (breakEvenAge s = Some a \<longrightarrow> breakEvenAge (careerLoop c p cd n y s) = Some a)"
proof (intro conjI impI)
  show "summaryBreakEvenAge (summary (generateLifePath c p cd))
     = map_option fst (find (\<lambda>(a, nw). 0 < nw) (careerTrace c p cd))"
    by (simp add: generateLifePath_def afterCareer_def careerTrace_def Let_def
        careerLoop_breakEvenAge afterResidency_breakEvenAge)
  obtain ext where ext:
    "timeline (afterCareer c p cd) = timeline (afterResidency c p cd) @ ext"
    "map (\<lambda>e. (age e, netWorth e)) ext = map (\<lambda>(a, nw). (a, Math_round nw)) (careerTrace c p cd)"
    unfolding afterCareer_def careerTrace_def
    using careerLoop_timeline by blast
  show "map (\<lambda>e. (age e, netWorth e)) (careerSnapshots c p cd)
     = map (\<lambda>(a, nw). (a, Math_round nw)) (careerTrace c p cd)"
    by (simp add: careerSnapshots_def generateLifePath_def Let_def ext)
  show "breakEvenAge (careerLoop c p cd n y s) = Some a" if "breakEvenAge s = Some a"
    using that by (simp add: careerLoop_breakEvenAge)
qed

theorem breakEvenAge_first_positive_career_year_witness:
  "summaryBreakEvenAge (summary (generateLifePath cityCollege traineeProfile trainee)) = Some 27
   \<and> breakEvenAge (initialSim\<lparr>breakEvenAge := Some 27\<rparr>) = Some 27
   \<and> breakEvenAge (careerLoop cityCollege traineeProfile trainee 9 2
         (initialSim\<lparr>breakEvenAge := Some 27\<rparr>)) = Some 27"
  using breakEvenAge_first_positive_career_year [of cityCollege traineeProfile trainee
      "initialSim\<lparr>breakEvenAge := Some 27\<rparr>" 27 9 2]
  by (simp add: trainee_trace_head)

subsection \<open>The undergraduate debt\<close>

text \<open>
  Claim C4 says that the undergraduate debt estimate is the college's median debt when
  that is provided. The example college provides a median debt of 19000, and the
  estimate is 72000, which is 60 percent of its four-year sticker cost of 120000.
\<close>

theorem median_debt_is_not_read:
  "medianDebt stateCollege = Some 19000
   \<and> undergradDebt stateCollege (student ''48001-75000'' ''ca'' 18) = 72000"
  by code_simp

text \<open>
  Claim C4, amended. For every college record and profile the undergraduate debt
  estimate is the rounding of 0.6 times the adjusted four-year sticker cost (four times
  the yearly sticker price with room and board, less the scholarship, floored at 0),
  whether or not the college provides a median debt: neither the estimate nor any other
  part of the life path depends on that field.
\<close>

theorem undergradDebt_is_sixty_percent_of_sticker:
  "undergradDebt c p = Math_round (adjustedUndergradCost c p * 0.6)
   \<and> adjustedUndergradCost c p
       = max 0 (getStickerPrice c (isInState c p) True * 4 - scholarshipOffset p)
   \<and> undergradDebt (c\<lparr>medianDebt := d\<rparr>) p = undergradDebt c p
   \<and> generateLifePath (c\<lparr>medianDebt := d\<rparr>) p cd = generateLifePath c p cd"
  by (simp add: undergradDebt_def adjustedUndergradCost_def undergradCostWithRB_def
      stickerPriceWithRB_def adjustedUndergradCost_medianDebt generateLifePath_medianDebt
      getStickerPrice_medianDebt isInState_medianDebt)

subsection \<open>The aid-adjusted price\<close>

text \<open>
  Claim C10. When the aid-adjusted price resolved for the profile's bracket is exactly
  0, the four-year aid-adjusted cost is \<^verbatim>\<open>null\<close>, and so is the field
  \<^verbatim>\<open>aidAdjustedUndergrad\<close> of the summary's cost breakdown.
\<close>

theorem zero_net_price_reported_as_null:
  "getAidAdjustedPrice c (incomeBracket p) = Num 0
    \<Longrightarrow> aidAdjustedUndergrad c p = Null
      \<and> breakdownAidAdjustedUndergrad (costBreakdown (summary (generateLifePath c p cd))) = None"
  by (simp add: generateLifePath_def Let_def aidAdjustedUndergrad_def aidAdjustedPerYear_def
      truthy_def)

theorem zero_net_price_reported_as_null_witness:
  "getAidAdjustedPrice stateCollege (incomeBracket (student ''0-30000'' ''CA'' 18)) = Num 0
   \<and> breakdownAidAdjustedUndergrad (costBreakdown (summary
        (generateLifePath stateCollege (student ''0-30000'' ''CA'' 18) surgeon))) = None"
proof -
  have h: "getAidAdjustedPrice stateCollege (incomeBracket (student ''0-30000'' ''CA'' 18)) = Num 0"
    by code_simp
  from zero_net_price_reported_as_null [OF h, of surgeon] h show ?thesis by simp
qed

subsection \<open>Requests with an unknown income bracket\<close>






subsection \<open>The career classifier\<close>

lemma find_first_match:
  "list_all (\<lambda>x. \<not> P x) before \<Longrightarrow> P x \<Longrightarrow> find P (before @ x # after) = Some x"
  by (induction before) simp_all

lemma find_no_match: "list_all (\<lambda>x. \<not> P x) xs \<Longrightarrow> find P xs = None"
  by (induction xs) simp_all

text \<open>
  The rules are tried in the order of the list, and the first that matches decides; a
  text that is no key of the configuration table and that no rule matches is classified
  as \<^verbatim>\<open>not_sure\<close>.
\<close>

lemma matchCareerFromText_first_match:
  assumes "\<not> configLookupTruthy (trim (toLowerCase text))"
    and "patterns = before @ (pattern, category) # after"
    and "list_all (\<lambda>(q, d). \<not> regexTest q (trim (toLowerCase text))) before"
    and "regexTest pattern (trim (toLowerCase text))"
  shows "matchCareerFromText text = category"
proof -
  let ?P = "\<lambda>(q, d). regexTest q (trim (toLowerCase text))"
  from assms(3,4) have "list_all (\<lambda>x. \<not> ?P x) before" "?P (pattern, category)"
    by (simp_all add: case_prod_unfold)
  then have "find ?P (before @ (pattern, category) # after) = Some (pattern, category)"
    by (rule find_first_match)
  with assms(1,2) show ?thesis
    by (simp add: matchCareerFromText_def Let_def)
qed

lemma matchCareerFromText_default:
  assumes "\<not> configLookupTruthy (trim (toLowerCase text))"
    and "list_all (\<lambda>(q, d). \<not> regexTest q (trim (toLowerCase text))) patterns"
  shows "matchCareerFromText text = ''not_sure''"
proof -
  let ?P = "\<lambda>(q, d). regexTest q (trim (toLowerCase text))"
  from assms(2) have "list_all (\<lambda>x. \<not> ?P x) patterns"
    by (simp add: case_prod_unfold)
  then have "find ?P patterns = None"
    by (rule find_no_match)
  with assms(1) show ?thesis
    by (simp add: matchCareerFromText_def Let_def)
qed


end
